theory Spec2Isabelle
  imports Main
begin

section \<open>Go values used by package wake\<close>

subsection \<open>Errors\<close>

text \<open>
  Go compares two errors that are pointers by their addresses, not by what they point to:
  \<^verbatim>\<open>errors.New("x") == errors.New("x")\<close> is false. So an error carries the address of its
  allocation: \<open>Static v\<close> for the value made once, when the package-level variable \<open>v\<close>
  is initialised, and \<open>Dynamic n\<close> for the \<open>n\<close>-th value the allocator makes at run time.
\<close>

datatype addr = Static string | Dynamic nat

text \<open>
  A non-nil Go \<^verbatim>\<open>error\<close> as the package meets it: the value of \<^verbatim>\<open>errors.New(msg)\<close> (a pointer
  to an \<^verbatim>\<open>errorString\<close>), the value of \<^verbatim>\<open>fmt.Errorf\<close> with one \<^verbatim>\<open>%w\<close> operand (a pointer to a
  \<^verbatim>\<open>wrapError\<close> with its formatted message and the operand it unwraps to), and the value
  \<^verbatim>\<open>context.DeadlineExceeded\<close>, which is of a struct type with no fields. The nil error is
  \<open>None\<close> of \<open>error option\<close>. Two errors are equal when they are the same allocation.
\<close>

datatype error =
    errorString addr string
  | wrapError addr string error
  | deadlineExceededError

text \<open>The \<^verbatim>\<open>Error()\<close> method.\<close>

fun Error :: "error \<Rightarrow> string" where
  "Error (errorString a m) = m"
| "Error (wrapError a m e) = m"
| "Error deadlineExceededError = ''context deadline exceeded''"

text \<open>
  \<^verbatim>\<open>errors.Is(err, target)\<close>: the loop that compares \<^verbatim>\<open>err\<close> with the target and then
  follows \<^verbatim>\<open>Unwrap\<close>. None of the three kinds of error has an \<^verbatim>\<open>Is\<close> method.
\<close>

fun errors_is :: "error \<Rightarrow> error \<Rightarrow> bool" where
  "errors_is (wrapError a m e) target = (wrapError a m e = target \<or> errors_is e target)"
| "errors_is err target = (err = target)"

definition errors_Is :: "error option \<Rightarrow> error option \<Rightarrow> bool" where
  "errors_Is err target =
     (case (err, target) of
        (Some e, Some t) \<Rightarrow> errors_is e t
      | _ \<Rightarrow> err = target)"

text \<open>
  \<^verbatim>\<open>fmt.Errorf("%s: %w", s, err)\<close>, given the address of the value it allocates and the
  string that \<^verbatim>\<open>%s\<close> prints for \<^verbatim>\<open>s\<close>.
\<close>

definition fmt_Errorf_s_w :: "addr \<Rightarrow> string \<Rightarrow> error \<Rightarrow> error" where
  "fmt_Errorf_s_w a s err = wrapError a (s @ '': '' @ Error err) err"

text \<open>The sentinels of package wake (util.go, lines 17 and 65) and of package context.\<close>

definition ErrReceivedQuitSignal :: error where
  "ErrReceivedQuitSignal =
     errorString (Static ''wake.ErrReceivedQuitSignal'') ''received quit signal''"

definition ErrWaitDeadlineExceeded :: error where
  "ErrWaitDeadlineExceeded =
     errorString (Static ''wake.ErrWaitDeadlineExceeded'')
       ''wait func didn't complete within timeout''"

definition context_Canceled :: error where
  "context_Canceled = errorString (Static ''context.Canceled'') ''context canceled''"

definition context_DeadlineExceeded :: error where
  "context_DeadlineExceeded = deadlineExceededError"

subsection \<open>Signals\<close>

text \<open>
  An \<^verbatim>\<open>os.Signal\<close>: the number package os/signal matches on and what its \<^verbatim>\<open>String\<close> method
  returns.
\<close>

datatype signal = Signal (signum: nat) (sig_String: string)

definition os_Interrupt :: signal where
  "os_Interrupt = Signal 2 ''interrupt''"

definition syscall_SIGTERM :: signal where
  "syscall_SIGTERM = Signal 15 ''terminated''"

definition syscall_SIGQUIT :: signal where
  "syscall_SIGQUIT = Signal 3 ''quit''"

definition syscall_SIGKILL :: signal where
  "syscall_SIGKILL = Signal 9 ''killed''"

text \<open>SIGKILL (9) and SIGSTOP (19) never reach user code, whatever was registered.\<close>

definition catchable :: "signal \<Rightarrow> bool" where
  "catchable g = (signum g \<noteq> 9 \<and> signum g \<noteq> 19)"

subsection \<open>Events\<close>

text \<open>
  Both functions run concurrently with their environment. A run is a list of events, each
  one atomic step of one party:
  \<^item> \<open>Cancel r\<close>: the context is cancelled with reason \<open>r\<close>; its \<^verbatim>\<open>Done\<close> channel is closed
    and \<^verbatim>\<open>ctx.Err()\<close> is \<open>r\<close> from then on (a second cancellation changes nothing). By the
    contract of \<^verbatim>\<open>context.Context\<close>, \<^verbatim>\<open>Err\<close> is nil as long as \<^verbatim>\<open>Done\<close> is open and not
    nil once it is closed;
  \<^item> \<open>Deliver g\<close>: the operating system delivers signal \<open>g\<close> to the process;
  \<^item> \<open>Tick n\<close>: the monotonic clock advances by \<open>n\<close> nanoseconds;
  \<^item> \<open>Run b\<close>: the goroutine executing the function takes its next step; when it is at a
    \<^verbatim>\<open>select\<close> of which both cases can proceed, \<open>b\<close> is the choice of the runtime;
  \<^item> \<open>Go\<close>: the goroutine started by \<^verbatim>\<open>WaitWithTimeout\<close> takes its next step;
  \<^item> \<open>WaitReturns v\<close>: the call of the \<^verbatim>\<open>wait\<close> callable returns \<open>v\<close>.
\<close>

datatype choice = First | Second

datatype event =
    Cancel error
  | Deliver signal
  | Tick nat
  | Run choice
  | Go
  | WaitReturns "error option"

section \<open>ListenForQuitSignal\<close>

text \<open>
  The function, util.go lines 44 to 59:
  \<^verbatim>\<open>
  func ListenForQuitSignal(ctx context.Context, sig ...os.Signal) error {
          if len(sig) == 0 {
                  sig = append(sig, os.Interrupt, syscall.SIGTERM)
          }

          c := make(chan os.Signal, 1)
          signal.Notify(c, sig...)
          defer signal.Stop(c)

          select {
          case <-ctx.Done():
                  return ctx.Err()
          case s := <-c:
                  return fmt.Errorf("%s: %w", s, ErrReceivedQuitSignal)
          }
  }
  \<close>
  It is modelled as a machine that takes one statement per step, so that the events of
  the environment can fall between any two statements.
\<close>

text \<open>
  The control points of \<^verbatim>\<open>ListenForQuitSignal\<close> (util.go, lines 44 to 59):
  \<^item> \<open>L_entry\<close>: before line 45, the defaulting of \<^verbatim>\<open>sig\<close>;
  \<^item> \<open>L_make\<close>: before line 49, \<^verbatim>\<open>c := make(chan os.Signal, 1)\<close>;
  \<^item> \<open>L_notify\<close>: before line 50, \<^verbatim>\<open>signal.Notify(c, sig...)\<close> (line 51 only defers);
  \<^item> \<open>L_select\<close>: at the \<^verbatim>\<open>select\<close> of line 53;
  \<^item> \<open>L_deferred v\<close>: a \<^verbatim>\<open>return\<close> has computed \<open>v\<close>, the deferred
    \<^verbatim>\<open>signal.Stop(c)\<close> has not run yet;
  \<^item> \<open>L_returned v\<close>: the function has returned \<open>v\<close> to its caller.
\<close>

datatype lpc = L_entry | L_make | L_notify | L_select
  | L_deferred "error option" | L_returned "error option"

text \<open>
  The state of one call: the control point, the slice \<^verbatim>\<open>sig\<close>, the buffer of channel
  \<^verbatim>\<open>c\<close> (\<open>None\<close> before it is made; its capacity is 1), the signal numbers the table of
  os/signal relays to \<^verbatim>\<open>c\<close>, \<^verbatim>\<open>ctx.Err()\<close> (\<open>None\<close> as long as \<^verbatim>\<open>ctx.Done()\<close> is open),
  counters of the calls of \<^verbatim>\<open>signal.Notify\<close> and \<^verbatim>\<open>signal.Stop\<close>, and the address at which
  the allocator will put the error of line 57, should the call get there.
\<close>

record lstate =
  lpc :: lpc
  sig :: "signal list"
  c :: "signal list option"
  handlers :: "nat set"
  lctx :: "error option"
  notifies :: nat
  stops :: nat
  alloc :: addr

definition linit :: "addr \<Rightarrow> error option \<Rightarrow> signal list \<Rightarrow> lstate" where
  "linit a ctx0 sigs =
     \<lparr>lpc = L_entry, sig = sigs, c = None, handlers = {}, lctx = ctx0,
      notifies = 0, stops = 0, alloc = a\<rparr>"

text \<open>
  \<^verbatim>\<open>signal.Notify(c, sig...)\<close> on the entry of \<^verbatim>\<open>c\<close>: no signal given means all signals.
\<close>

definition signal_Notify :: "nat set \<Rightarrow> signal list \<Rightarrow> nat set" where
  "signal_Notify h sigs = (if sigs = [] then UNIV else h \<union> signum ` set sigs)"

text \<open>
  A signal reaching the process: os/signal sends it to \<^verbatim>\<open>c\<close> without blocking if \<^verbatim>\<open>c\<close> is
  registered for it, and drops it when the buffer is full. A signal \<^verbatim>\<open>c\<close> is not registered
  for is not seen by the call (what else it does to the process is not part of the state).
\<close>

definition deliver :: "signal \<Rightarrow> lstate \<Rightarrow> lstate" where
  "deliver g s =
     (case c s of
        Some buf \<Rightarrow>
          if signum g \<in> handlers s \<and> catchable g \<and> length buf < 1
          then s\<lparr>c := Some (buf @ [g])\<rparr> else s
      | None \<Rightarrow> s)"

text \<open>
  The \<^verbatim>\<open>select\<close> of lines 53 to 58. \<open>First\<close> is \<^verbatim>\<open>case <-ctx.Done()\<close>, \<open>Second\<close> is
  \<^verbatim>\<open>case s := <-c\<close>. With no case ready the goroutine stays blocked.
\<close>

definition lselect :: "choice \<Rightarrow> lstate \<Rightarrow> lstate" where
  "lselect b s =
     (case c s of
        Some (g # rest) \<Rightarrow>
          if lctx s \<noteq> None \<and> b = First
          then s\<lparr>lpc := L_deferred (lctx s)\<rparr>
          else s\<lparr>c := Some rest,
                 lpc := L_deferred
                   (Some (fmt_Errorf_s_w (alloc s) (sig_String g) ErrReceivedQuitSignal))\<rparr>
      | _ \<Rightarrow>
          if lctx s \<noteq> None then s\<lparr>lpc := L_deferred (lctx s)\<rparr> else s)"

definition lrun1 :: "choice \<Rightarrow> lstate \<Rightarrow> lstate" where
  "lrun1 b s =
     (case lpc s of
        L_entry \<Rightarrow>
          s\<lparr>sig := (if length (sig s) = 0 then sig s @ [os_Interrupt, syscall_SIGTERM]
                     else sig s),
            lpc := L_make\<rparr>
      | L_make \<Rightarrow> s\<lparr>c := Some [], lpc := L_notify\<rparr>
      | L_notify \<Rightarrow>
          s\<lparr>handlers := signal_Notify (handlers s) (sig s),
            notifies := notifies s + 1, lpc := L_select\<rparr>
      | L_select \<Rightarrow> lselect b s
      | L_deferred v \<Rightarrow> s\<lparr>handlers := {}, stops := stops s + 1, lpc := L_returned v\<rparr>
      | L_returned v \<Rightarrow> s)"

fun lstep :: "event \<Rightarrow> lstate \<Rightarrow> lstate" where
  "lstep (Cancel r) s = (if lctx s = None then s\<lparr>lctx := Some r\<rparr> else s)"
| "lstep (Deliver g) s = deliver g s"
| "lstep (Run b) s = lrun1 b s"
| "lstep e s = s"

text \<open>
  The call \<^verbatim>\<open>ListenForQuitSignal(ctx, sig...)\<close> after the events \<open>es\<close>, where \<open>ctx0\<close> is
  \<^verbatim>\<open>ctx.Err()\<close> at the time of the call and \<open>a\<close> the address the allocator has next.
\<close>

definition ListenForQuitSignal ::
  "addr \<Rightarrow> error option \<Rightarrow> signal list \<Rightarrow> event list \<Rightarrow> lstate" where
  "ListenForQuitSignal a ctx0 sigs es = fold lstep es (linit a ctx0 sigs)"

section \<open>WaitWithTimeout\<close>

text \<open>
  The function, util.go lines 102 to 115:
  \<^verbatim>\<open>
  func WaitWithTimeout(ctx context.Context, timeout time.Duration, wait func() error) error {
          <-ctx.Done()

          rec := make(chan error, 1)

          go func() { rec <- wait() }()

          select {
          case err := <-rec:
                  return err
          case <-time.After(timeout):
                  return ErrWaitDeadlineExceeded
          }
  }
  \<close>
  It is modelled as two machines, the function and the goroutine it starts, each taking
  one statement per step.
\<close>

text \<open>
  The control points of \<^verbatim>\<open>WaitWithTimeout\<close> (util.go, lines 102 to 115):
  \<^item> \<open>W_done\<close>: at line 103, \<^verbatim>\<open><-ctx.Done()\<close>;
  \<^item> \<open>W_make\<close>: before line 105, \<^verbatim>\<open>rec := make(chan error, 1)\<close>;
  \<^item> \<open>W_go\<close>: before the \<^verbatim>\<open>go\<close> statement of line 107;
  \<^item> \<open>W_after\<close>: entering the \<^verbatim>\<open>select\<close> of line 109, which evaluates
    \<^verbatim>\<open>time.After(timeout)\<close> once;
  \<^item> \<open>W_select\<close>: waiting in that \<^verbatim>\<open>select\<close>;
  \<^item> \<open>W_returned v\<close>: the function has returned \<open>v\<close> to its caller.

  The control points of the goroutine of line 107, \<^verbatim>\<open>func() { rec <- wait() }\<close>:
  \<^item> \<open>G_none\<close>: not started;
  \<^item> \<open>G_start\<close>: started, \<^verbatim>\<open>wait\<close> not called yet;
  \<^item> \<open>G_waiting\<close>: inside the call of \<^verbatim>\<open>wait\<close>;
  \<^item> \<open>G_send v\<close>: \<^verbatim>\<open>wait\<close> has returned \<open>v\<close>, which is to be sent on \<^verbatim>\<open>rec\<close>;
  \<^item> \<open>G_exit\<close>: the send is done and the goroutine has ended.
\<close>

datatype wpc = W_done | W_make | W_go | W_after | W_select | W_returned "error option"

datatype gpc = G_none | G_start | G_waiting | G_send "error option" | G_exit

text \<open>
  The state of one call: the two control points, \<^verbatim>\<open>ctx.Err()\<close> (\<open>None\<close> as long as
  \<^verbatim>\<open>ctx.Done()\<close> is open), the parameter \<^verbatim>\<open>timeout\<close> in nanoseconds, the buffer of
  channel \<^verbatim>\<open>rec\<close> (\<open>None\<close> before it is made; its capacity is 1), the monotonic clock, the
  instant at which the channel of \<^verbatim>\<open>time.After\<close> becomes ready (\<open>None\<close> before the timer is
  made), the number of calls of \<^verbatim>\<open>wait\<close> so far, and what \<^verbatim>\<open>wait\<close> returned (\<open>None\<close> as long
  as it has not).
\<close>

record wstate =
  wpc :: wpc
  gpc :: gpc
  wctx :: "error option"
  timeout :: int
  rec :: "error option list option"
  now :: int
  timer :: "int option"
  calls :: nat
  wait_ret :: "error option option"

definition winit :: "error option \<Rightarrow> int \<Rightarrow> int \<Rightarrow> wstate" where
  "winit ctx0 d t0 =
     \<lparr>wpc = W_done, gpc = G_none, wctx = ctx0, timeout = d, rec = None, now = t0,
      timer = None, calls = 0, wait_ret = None\<rparr>"

text \<open>
  The instant at which a timer of duration \<open>d\<close> made at \<open>t\<close> fires: a duration that is not
  positive fires at once.
\<close>

definition time_when :: "int \<Rightarrow> int \<Rightarrow> int" where
  "time_when t d = (if d \<le> 0 then t else t + d)"

definition timer_ready :: "wstate \<Rightarrow> bool" where
  "timer_ready s = (case timer s of Some w \<Rightarrow> w \<le> now s | None \<Rightarrow> False)"

text \<open>
  The \<^verbatim>\<open>select\<close> of lines 109 to 114. \<open>First\<close> is \<^verbatim>\<open>case err := <-rec\<close>, \<open>Second\<close> is
  \<^verbatim>\<open>case <-time.After(timeout)\<close>. With no case ready the goroutine stays blocked.
\<close>

definition wselect :: "choice \<Rightarrow> wstate \<Rightarrow> wstate" where
  "wselect b s =
     (case rec s of
        Some (err # rest) \<Rightarrow>
          if timer_ready s \<and> b = Second
          then s\<lparr>wpc := W_returned (Some ErrWaitDeadlineExceeded)\<rparr>
          else s\<lparr>rec := Some rest, wpc := W_returned err\<rparr>
      | _ \<Rightarrow>
          if timer_ready s then s\<lparr>wpc := W_returned (Some ErrWaitDeadlineExceeded)\<rparr>
          else s)"

definition wrun1 :: "choice \<Rightarrow> wstate \<Rightarrow> wstate" where
  "wrun1 b s =
     (case wpc s of
        W_done \<Rightarrow> if wctx s \<noteq> None then s\<lparr>wpc := W_make\<rparr> else s
      | W_make \<Rightarrow> s\<lparr>rec := Some [], wpc := W_go\<rparr>
      | W_go \<Rightarrow> s\<lparr>gpc := G_start, wpc := W_after\<rparr>
      | W_after \<Rightarrow> s\<lparr>timer := Some (time_when (now s) (timeout s)), wpc := W_select\<rparr>
      | W_select \<Rightarrow> wselect b s
      | W_returned v \<Rightarrow> s)"

text \<open>
  A step of the goroutine of line 107: it calls \<^verbatim>\<open>wait\<close>, and once \<^verbatim>\<open>wait\<close> has returned
  it sends the result on \<^verbatim>\<open>rec\<close>, which blocks as long as the buffer is full.
\<close>

definition gorun1 :: "wstate \<Rightarrow> wstate" where
  "gorun1 s =
     (case gpc s of
        G_start \<Rightarrow> s\<lparr>gpc := G_waiting, calls := calls s + 1\<rparr>
      | G_send v \<Rightarrow>
          (case rec s of
             Some buf \<Rightarrow>
               if length buf < 1 then s\<lparr>rec := Some (buf @ [v]), gpc := G_exit\<rparr> else s
           | None \<Rightarrow> s)
      | _ \<Rightarrow> s)"

fun wstep :: "event \<Rightarrow> wstate \<Rightarrow> wstate" where
  "wstep (Cancel r) s = (if wctx s = None then s\<lparr>wctx := Some r\<rparr> else s)"
| "wstep (Tick n) s = s\<lparr>now := now s + int n\<rparr>"
| "wstep (Run b) s = wrun1 b s"
| "wstep Go s = gorun1 s"
| "wstep (WaitReturns v) s =
     (if gpc s = G_waiting then s\<lparr>gpc := G_send v, wait_ret := Some v\<rparr> else s)"
| "wstep (Deliver g) s = s"

text \<open>
  The call \<^verbatim>\<open>WaitWithTimeout(ctx, timeout, wait)\<close> after the events \<open>es\<close>, where \<open>ctx0\<close> is
  \<^verbatim>\<open>ctx.Err()\<close> and \<open>t0\<close> the clock at the time of the call. The callable \<^verbatim>\<open>wait\<close> is
  represented by the events \<open>WaitReturns\<close> of the run.
\<close>

definition WaitWithTimeout :: "error option \<Rightarrow> int \<Rightarrow> int \<Rightarrow> event list \<Rightarrow> wstate" where
  "WaitWithTimeout ctx0 d t0 es = fold wstep es (winit ctx0 d t0)"

text \<open>The number of steps of the function's own goroutine in a run.\<close>

fun runs :: "event list \<Rightarrow> nat" where
  "runs [] = 0"
| "runs (Run b # es) = Suc (runs es)"
| "runs (e # es) = runs es"

text \<open>A run of the environment alone: no step of the function's own goroutine.\<close>

definition env_only :: "event list \<Rightarrow> bool" where
  "env_only es = (runs es = 0)"

section \<open>Auxiliary notions\<close>

text \<open>
  An error wrapped by further \<^verbatim>\<open>fmt.Errorf\<close> layers with \<^verbatim>\<open>%w\<close>, one per pair of an
  address and a message.
\<close>

definition wrap :: "(addr \<times> string) list \<Rightarrow> error \<Rightarrow> error" where
  "wrap ms err = foldr (\<lambda>(a, m). wrapError a m) ms err"

text \<open>The slice \<^verbatim>\<open>sig\<close> after lines 45 to 47.\<close>

definition default_sig :: "signal list \<Rightarrow> signal list" where
  "default_sig sigs = (if sigs = [] then [os_Interrupt, syscall_SIGTERM] else sigs)"

text \<open>What holds at each control point of \<^verbatim>\<open>ListenForQuitSignal\<close>.\<close>

definition linv :: "signal list \<Rightarrow> lstate \<Rightarrow> bool" where
  "linv sigs s =
     (case lpc s of
        L_entry \<Rightarrow>
          sig s = sigs \<and> c s = None \<and> handlers s = {} \<and> notifies s = 0 \<and> stops s = 0
      | L_make \<Rightarrow>
          sig s = default_sig sigs \<and> c s = None \<and> handlers s = {} \<and> notifies s = 0 \<and>
          stops s = 0
      | L_notify \<Rightarrow>
          sig s = default_sig sigs \<and> c s = Some [] \<and> handlers s = {} \<and> notifies s = 0 \<and>
          stops s = 0
      | L_select \<Rightarrow>
          sig s = default_sig sigs \<and> (c s = Some [] \<or> (\<exists>g. c s = Some [g])) \<and>
          handlers s = signum ` set (default_sig sigs) \<and> notifies s = 1 \<and> stops s = 0
      | L_deferred v \<Rightarrow>
          sig s = default_sig sigs \<and> (c s = Some [] \<or> (\<exists>g. c s = Some [g])) \<and>
          handlers s = signum ` set (default_sig sigs) \<and> notifies s = 1 \<and> stops s = 0 \<and>
          ((v = lctx s \<and> v \<noteq> None) \<or>
           (\<exists>g. v = Some (fmt_Errorf_s_w (alloc s) (sig_String g) ErrReceivedQuitSignal)))
      | L_returned v \<Rightarrow>
          sig s = default_sig sigs \<and> (c s = Some [] \<or> (\<exists>g. c s = Some [g])) \<and>
          handlers s = {} \<and> notifies s = 1 \<and> stops s = 1 \<and>
          ((v = lctx s \<and> v \<noteq> None) \<or>
           (\<exists>g. v = Some (fmt_Errorf_s_w (alloc s) (sig_String g) ErrReceivedQuitSignal))))"

text \<open>What holds at each pair of control points of \<^verbatim>\<open>WaitWithTimeout\<close>.\<close>

definition winv :: "int \<Rightarrow> wstate \<Rightarrow> bool" where
  "winv d s =
     (timeout s = d \<and>
      (case wpc s of
         W_done \<Rightarrow> rec s = None \<and> gpc s = G_none \<and> timer s = None
       | W_make \<Rightarrow> wctx s \<noteq> None \<and> rec s = None \<and> gpc s = G_none \<and> timer s = None
       | W_go \<Rightarrow> wctx s \<noteq> None \<and> rec s = Some [] \<and> gpc s = G_none \<and> timer s = None
       | W_after \<Rightarrow> wctx s \<noteq> None \<and> gpc s \<noteq> G_none \<and> timer s = None
       | W_select \<Rightarrow>
           wctx s \<noteq> None \<and> gpc s \<noteq> G_none \<and>
           (\<exists>w. timer s = Some w \<and> (d \<le> 0 \<longrightarrow> w \<le> now s))
       | W_returned v \<Rightarrow>
           wctx s \<noteq> None \<and> gpc s \<noteq> G_none \<and> timer s \<noteq> None \<and>
           (v = Some ErrWaitDeadlineExceeded \<or>
            (gpc s = G_exit \<and> wait_ret s = Some v \<and> rec s = Some []))) \<and>
      (case gpc s of
         G_none \<Rightarrow> calls s = 0 \<and> wait_ret s = None
       | G_start \<Rightarrow> calls s = 0 \<and> wait_ret s = None \<and> rec s = Some []
       | G_waiting \<Rightarrow> calls s = 1 \<and> wait_ret s = None \<and> rec s = Some []
       | G_send v \<Rightarrow> calls s = 1 \<and> wait_ret s = Some v \<and> rec s = Some []
       | G_exit \<Rightarrow>
           calls s = 1 \<and> (\<exists>v. wait_ret s = Some v \<and> (rec s = Some [v] \<or> rec s = Some []))))"

text \<open>
  The number of steps \<^verbatim>\<open>WaitWithTimeout\<close> still has to take from a control point before it
  has returned.
\<close>

fun steps_left :: "wpc \<Rightarrow> nat" where
  "steps_left W_done = 5"
| "steps_left W_make = 4"
| "steps_left W_go = 3"
| "steps_left W_after = 2"
| "steps_left W_select = 1"
| "steps_left (W_returned v) = 0"

section \<open>Errors and their matching\<close>

lemma errors_is_refl: "errors_is e e"
  by (cases e) simp_all

lemma errors_is_wrap: "errors_is e t \<Longrightarrow> errors_is (wrap ms e) t"
  by (induction ms) (auto simp: wrap_def)

lemma errors_Is_refl: "errors_Is v v"
  by (cases v) (simp_all add: errors_Is_def errors_is_refl)

lemma errors_Is_quit:
  "errors_Is (Some (wrap ms (fmt_Errorf_s_w a n ErrReceivedQuitSignal)))
     (Some ErrReceivedQuitSignal)"
  by (simp add: errors_Is_def errors_is_wrap fmt_Errorf_s_w_def errors_is_refl)

lemma Error_quit:
  "Error (fmt_Errorf_s_w a n ErrReceivedQuitSignal) = n @ '': received quit signal''"
  by (simp add: fmt_Errorf_s_w_def ErrReceivedQuitSignal_def)

section \<open>Runs of ListenForQuitSignal\<close>

lemma default_sig_nonempty: "default_sig sigs \<noteq> []"
  by (simp add: default_sig_def)

lemma linv_init: "linv sigs (linit a ctx0 sigs)"
  by (simp add: linv_def linit_def)

lemma linv_step: "linv sigs s \<Longrightarrow> linv sigs (lstep e s)"
proof (cases e)
  case (Cancel r)
  assume "linv sigs s"
  then show ?thesis using Cancel by (auto simp: linv_def split: lpc.splits)
next
  case (Deliver g)
  assume "linv sigs s"
  then show ?thesis using Deliver
    by (auto simp: linv_def deliver_def split: lpc.splits option.splits)
next
  case (Run b)
  assume "linv sigs s"
  then show ?thesis using Run
    by (auto simp: linv_def lrun1_def lselect_def signal_Notify_def default_sig_def
        split: lpc.splits option.splits list.splits)
qed simp_all

lemma linv_fold: "linv sigs s \<Longrightarrow> linv sigs (fold lstep es s)"
  by (induction es arbitrary: s) (simp_all add: linv_step)

lemma linv_run: "linv sigs (ListenForQuitSignal a ctx0 sigs es)"
  by (simp add: ListenForQuitSignal_def linv_fold linv_init)

lemma alloc_step: "alloc (lstep e s) = alloc s"
  by (cases e)
    (simp_all add: deliver_def lrun1_def lselect_def
      split: lpc.splits option.splits list.splits)

lemma alloc_fold: "alloc (fold lstep es s) = alloc s"
  by (induction es arbitrary: s) (simp_all add: alloc_step)

lemma alloc_run: "alloc (ListenForQuitSignal a ctx0 sigs es) = a"
  by (simp add: ListenForQuitSignal_def alloc_fold linit_def)

lemma lselect_sig:
  "lpc s = L_select \<Longrightarrow> c s = Some (g # rest) \<Longrightarrow> lctx s = None \<or> b = Second \<Longrightarrow>
   lrun1 b s = s\<lparr>c := Some rest,
     lpc := L_deferred (Some (fmt_Errorf_s_w (alloc s) (sig_String g) ErrReceivedQuitSignal))\<rparr>"
  by (auto simp: lrun1_def lselect_def)

lemma lselect_ctx:
  "lpc s = L_select \<Longrightarrow> lctx s = Some r \<Longrightarrow> c s = Some [] \<or> b = First \<Longrightarrow>
   lrun1 b s = s\<lparr>lpc := L_deferred (Some r)\<rparr>"
  by (auto simp: lrun1_def lselect_def split: option.splits list.splits)

lemma ldeferred:
  "lpc s = L_deferred v \<Longrightarrow>
   lrun1 b s = s\<lparr>handlers := {}, stops := stops s + 1, lpc := L_returned v\<rparr>"
  by (simp add: lrun1_def)

lemma deliver_unsubscribed: "signum g \<notin> handlers s \<Longrightarrow> lstep (Deliver g) s = s"
  by (simp add: deliver_def split: option.splits)

lemma lreturned_step:
  "lpc s = L_returned v \<Longrightarrow> handlers s = {} \<Longrightarrow>
   lpc (lstep e s) = L_returned v \<and> handlers (lstep e s) = {} \<and> c (lstep e s) = c s \<and>
   stops (lstep e s) = stops s \<and> notifies (lstep e s) = notifies s"
  by (cases e) (simp_all add: deliver_def lrun1_def split: option.splits)

lemma lreturned_fold:
  "lpc s = L_returned v \<Longrightarrow> handlers s = {} \<Longrightarrow>
   lpc (fold lstep es s) = L_returned v \<and> handlers (fold lstep es s) = {} \<and>
   c (fold lstep es s) = c s \<and> stops (fold lstep es s) = stops s \<and>
   notifies (fold lstep es s) = notifies s"
proof (induction es arbitrary: s)
  case Nil
  then show ?case by simp
next
  case (Cons e es)
  from lreturned_step [OF Cons.prems, of e] Cons.IH [of "lstep e s"]
  show ?case by simp
qed

lemma env_step_keeps:
  "c s = Some (g # rest) \<Longrightarrow> runs [e] = 0 \<Longrightarrow>
   lpc (lstep e s) = lpc s \<and> c (lstep e s) = Some (g # rest)"
  by (cases e) (simp_all add: deliver_def)

lemma env_fold_keeps:
  "c s = Some (g # rest) \<Longrightarrow> runs es = 0 \<Longrightarrow>
   lpc (fold lstep es s) = lpc s \<and> c (fold lstep es s) = Some (g # rest)"
proof (induction es arbitrary: s)
  case Nil
  then show ?case by simp
next
  case (Cons e es)
  have e: "runs [e] = 0" and es: "runs es = 0"
    using Cons.prems(2) by (cases e; simp)+
  from env_step_keeps [OF Cons.prems(1) e] Cons.IH [of "lstep e s"] es
  show ?case by simp
qed

lemmas lfqs_defs = ListenForQuitSignal_def linit_def lrun1_def lselect_def deliver_def
  signal_Notify_def catchable_def

lemmas signal_defs = os_Interrupt_def syscall_SIGTERM_def syscall_SIGQUIT_def
  syscall_SIGKILL_def

lemma ListenForQuitSignal_append:
  "ListenForQuitSignal a ctx0 sigs (es @ es') = fold lstep es' (ListenForQuitSignal a ctx0 sigs es)"
  by (simp add: ListenForQuitSignal_def)

lemma returns_quit_signal:
  "lpc s = L_select \<Longrightarrow> c s = Some (g # rest) \<Longrightarrow> lctx s = None \<or> b = Second \<Longrightarrow>
   lpc (fold lstep [Run b, Run b'] s)
     = L_returned (Some (fmt_Errorf_s_w (alloc s) (sig_String g) ErrReceivedQuitSignal))"
  by (simp add: lselect_sig ldeferred)

lemma returns_ctx_reason:
  "lpc s = L_select \<Longrightarrow> lctx s = Some r \<Longrightarrow> c s = Some [] \<or> b = First \<Longrightarrow>
   lpc (fold lstep [Run b, Run b'] s) = L_returned (Some r)"
  by (simp add: lselect_ctx ldeferred)

lemma handlers_default_select:
  "linv [] s \<Longrightarrow> lpc s = L_select \<Longrightarrow>
   handlers s = {signum os_Interrupt, signum syscall_SIGTERM}"
  by (simp add: linv_def default_sig_def)

lemma handlers_default_subset:
  "linv [] s \<Longrightarrow> handlers s \<subseteq> {signum os_Interrupt, signum syscall_SIGTERM}"
  by (cases "lpc s") (simp_all add: linv_def default_sig_def)

lemma deliver_buffered:
  "c s = Some [] \<Longrightarrow> signum g \<in> handlers s \<Longrightarrow> catchable g \<Longrightarrow>
   lstep (Deliver g) s = s\<lparr>c := Some [g]\<rparr>"
  by (simp add: deliver_def)

lemma deliver_full: "c s = Some [g'] \<Longrightarrow> lstep (Deliver g) s = s"
  by (simp add: deliver_def)

lemma default_pair_catchable:
  "signum g = signum os_Interrupt \<or> signum g = signum syscall_SIGTERM \<Longrightarrow> catchable g"
  by (auto simp: catchable_def os_Interrupt_def syscall_SIGTERM_def)

lemma stops_count:
  "linv sigs s \<Longrightarrow>
   stops s \<le> 1 \<and> notifies s \<le> 1 \<and> (stops s = 1 \<longleftrightarrow> (\<exists>v. lpc s = L_returned v))"
  by (cases "lpc s") (simp_all add: linv_def)

lemma select_ready:
  "linv sigs s \<Longrightarrow> lpc s = L_select \<Longrightarrow>
   (c s = Some [] \<or> (\<exists>g. c s = Some [g])) \<and> handlers s = signum ` set (default_sig sigs) \<and>
   sig s = default_sig sigs \<and> notifies s = 1 \<and> stops s = 0"
  by (simp add: linv_def)

lemma deliver_keeps_pc: "lpc (lstep (Deliver g) s) = lpc s"
  by (simp add: deliver_def split: option.splits)

lemma deliver_keeps_ctx: "lctx (lstep (Deliver g) s) = lctx s"
  by (simp add: deliver_def split: option.splits)

lemma setup_steps:
  assumes "linv sigs s"
  shows "(lpc s = L_entry \<longrightarrow> lpc (lrun1 b s) = L_make)
    \<and> (lpc s = L_make \<longrightarrow> lpc (lrun1 b s) = L_notify \<and> c (lrun1 b s) = Some [])
    \<and> (lpc s = L_notify \<longrightarrow> lpc (lrun1 b s) = L_select \<and> c (lrun1 b s) = Some [] \<and>
         handlers (lrun1 b s) = signum ` set (default_sig sigs))"
  using assms
  by (auto simp: linv_def lrun1_def signal_Notify_def default_sig_nonempty
      default_sig_nonempty [THEN not_sym])

lemma signal_kept:
  assumes inv: "linv sigs s" and pc: "lpc s = L_select"
    and reg: "signum g \<in> handlers s" and ca: "catchable g" and env: "runs es' = 0"
  shows "\<exists>g'. (c s = Some [] \<longrightarrow> g' = g) \<and> (\<forall>g0. c s = Some [g0] \<longrightarrow> g' = g0)
    \<and> lpc (fold lstep es' (lstep (Deliver g) s)) = L_select
    \<and> c (fold lstep es' (lstep (Deliver g) s)) = Some [g']"
proof -
  from select_ready [OF inv pc] consider "c s = Some []" | g0 where "c s = Some [g0]"
    by blast
  then show ?thesis
  proof cases
    case 1
    have d: "lstep (Deliver g) s = s\<lparr>c := Some [g]\<rparr>"
      by (rule deliver_buffered [OF 1 reg ca])
    have "c (s\<lparr>c := Some [g]\<rparr>) = Some (g # [])" by simp
    from env_fold_keeps [OF this env] pc d 1 show ?thesis by simp
  next
    case 2
    have d: "lstep (Deliver g) s = s" by (rule deliver_full [OF 2])
    from env_fold_keeps [OF 2 env] pc d 2 show ?thesis by simp
  qed
qed

section \<open>The claims about ListenForQuitSignal\<close>

text \<open>
  Claim C1. Whenever a call of \<^verbatim>\<open>ListenForQuitSignal\<close> is at its \<^verbatim>\<open>select\<close> with a signal
  \<open>g\<close> in the channel and the receive from the channel is the case taken (the context is
  not done, or the runtime chooses the second case), the next two steps of the function,
  the \<^verbatim>\<open>return\<close> and the deferred \<^verbatim>\<open>signal.Stop\<close>, return the non-nil error
  \<^verbatim>\<open>fmt.Errorf("%s: %w", g, ErrReceivedQuitSignal)\<close>: its message starts with the name of
  \<open>g\<close>, \<^verbatim>\<open>errors.Is\<close> matches it against \<^verbatim>\<open>ErrReceivedQuitSignal\<close>, and the match still
  holds under any number of further wrapping layers.
\<close>

theorem quit_signal_error:
  assumes "lpc (ListenForQuitSignal a ctx0 sigs es) = L_select"
    and "c (ListenForQuitSignal a ctx0 sigs es) = Some (g # rest)"
    and "lctx (ListenForQuitSignal a ctx0 sigs es) = None \<or> b = Second"
  shows "\<exists>err. lpc (ListenForQuitSignal a ctx0 sigs (es @ [Run b, Run b'])) = L_returned (Some err)
    \<and> err = fmt_Errorf_s_w a (sig_String g) ErrReceivedQuitSignal
    \<and> Error err = sig_String g @ '': received quit signal''
    \<and> errors_Is (Some err) (Some ErrReceivedQuitSignal)
    \<and> (\<forall>ms. errors_Is (Some (wrap ms err)) (Some ErrReceivedQuitSignal))"
proof -
  let ?err = "fmt_Errorf_s_w a (sig_String g) ErrReceivedQuitSignal"
  have "lpc (ListenForQuitSignal a ctx0 sigs (es @ [Run b, Run b'])) = L_returned (Some ?err)"
    using returns_quit_signal [OF assms, of b']
    by (simp only: ListenForQuitSignal_append alloc_run)
  moreover have "Error ?err = sig_String g @ '': received quit signal''"
    by (rule Error_quit)
  moreover have "errors_Is (Some ?err) (Some ErrReceivedQuitSignal)"
    using errors_Is_quit [of "[]"] by (simp add: wrap_def)
  moreover have "\<forall>ms. errors_Is (Some (wrap ms ?err)) (Some ErrReceivedQuitSignal)"
    by (simp add: errors_Is_quit)
  ultimately show ?thesis by blast
qed

text \<open>
  The run of the test \<^verbatim>\<open>TestSignalInterrupt\<close>: the call with no signals reaches its
  \<^verbatim>\<open>select\<close>, an interrupt is delivered, and the function returns
  \<^verbatim>\<open>interrupt: received quit signal\<close>, which still matches when wrapped twice.
\<close>

theorem quit_signal_error_witness:
  "lpc (ListenForQuitSignal (Dynamic 0) None [] [Run First, Run First, Run First, Deliver os_Interrupt])
     = L_select
   \<and> c (ListenForQuitSignal (Dynamic 0) None [] [Run First, Run First, Run First, Deliver os_Interrupt])
     = Some [os_Interrupt]
   \<and> lctx (ListenForQuitSignal (Dynamic 0) None [] [Run First, Run First, Run First, Deliver os_Interrupt])
     = None
   \<and> lpc (ListenForQuitSignal (Dynamic 0) None []
       [Run First, Run First, Run First, Deliver os_Interrupt, Run First, Run First])
     = L_returned (Some (wrapError (Dynamic 0) ''interrupt: received quit signal'' ErrReceivedQuitSignal))
   \<and> errors_Is
       (Some (wrap [(Dynamic 1, ''run''), (Dynamic 2, ''main'')]
         (wrapError (Dynamic 0) ''interrupt: received quit signal'' ErrReceivedQuitSignal)))
       (Some ErrReceivedQuitSignal)"
proof -
  let ?es = "[Run First, Run First, Run First, Deliver os_Interrupt]"
  have pc: "lpc (ListenForQuitSignal (Dynamic 0) None [] ?es) = L_select"
    by (simp add: lfqs_defs signal_defs)
  have ch: "c (ListenForQuitSignal (Dynamic 0) None [] ?es) = Some [os_Interrupt]"
    by (simp add: lfqs_defs signal_defs)
  have cx: "lctx (ListenForQuitSignal (Dynamic 0) None [] ?es) = None"
    by (simp add: lfqs_defs signal_defs)
  have e: "fmt_Errorf_s_w (Dynamic 0) (sig_String os_Interrupt) ErrReceivedQuitSignal
      = wrapError (Dynamic 0) ''interrupt: received quit signal'' ErrReceivedQuitSignal"
    by (simp add: fmt_Errorf_s_w_def os_Interrupt_def ErrReceivedQuitSignal_def)
  from quit_signal_error [OF pc ch disjI1 [OF cx], of First First]
  have "lpc (ListenForQuitSignal (Dynamic 0) None [] (?es @ [Run First, Run First]))
      = L_returned (Some (wrapError (Dynamic 0) ''interrupt: received quit signal'' ErrReceivedQuitSignal))
    \<and> errors_Is
       (Some (wrap [(Dynamic 1, ''run''), (Dynamic 2, ''main'')]
         (wrapError (Dynamic 0) ''interrupt: received quit signal'' ErrReceivedQuitSignal)))
       (Some ErrReceivedQuitSignal)"
    unfolding e by blast
  then show ?thesis using pc ch cx by simp
qed

text \<open>
  Claim C2. Whenever a call of \<^verbatim>\<open>ListenForQuitSignal\<close> is at its \<^verbatim>\<open>select\<close> with the context
  done, \<^verbatim>\<open>ctx.Err()\<close> being \<open>r\<close>, and the receive from \<^verbatim>\<open>ctx.Done()\<close> is the case taken (no
  signal is in the channel, or the runtime chooses the first case), the next two steps of
  the function return exactly \<open>r\<close>, not wrapped; and when \<open>r\<close> is one of the two reasons a
  context gives, \<^verbatim>\<open>context.Canceled\<close> or \<^verbatim>\<open>context.DeadlineExceeded\<close>, the result does not
  match \<^verbatim>\<open>ErrReceivedQuitSignal\<close>.
\<close>

theorem context_reason_unchanged:
  assumes "lpc (ListenForQuitSignal a ctx0 sigs es) = L_select"
    and "lctx (ListenForQuitSignal a ctx0 sigs es) = Some r"
    and "c (ListenForQuitSignal a ctx0 sigs es) = Some [] \<or> b = First"
  shows "lpc (ListenForQuitSignal a ctx0 sigs (es @ [Run b, Run b'])) = L_returned (Some r)
    \<and> (r = context_Canceled \<or> r = context_DeadlineExceeded \<longrightarrow>
        \<not> errors_Is (Some r) (Some ErrReceivedQuitSignal))"
proof -
  have "lpc (ListenForQuitSignal a ctx0 sigs (es @ [Run b, Run b'])) = L_returned (Some r)"
    unfolding ListenForQuitSignal_append by (rule returns_ctx_reason [OF assms])
  moreover have "r = context_Canceled \<or> r = context_DeadlineExceeded \<longrightarrow>
      \<not> errors_Is (Some r) (Some ErrReceivedQuitSignal)"
    by (auto simp: errors_Is_def context_Canceled_def context_DeadlineExceeded_def
        ErrReceivedQuitSignal_def)
  ultimately show ?thesis by simp
qed

text \<open>
  The run of the test "parent context cancelled": the call reaches its \<^verbatim>\<open>select\<close>, the
  context is cancelled, and the function returns \<^verbatim>\<open>context.Canceled\<close>.
\<close>

theorem context_reason_unchanged_witness:
  "lpc (ListenForQuitSignal (Dynamic 0) None []
       [Run First, Run First, Run First, Cancel context_Canceled]) = L_select
   \<and> lctx (ListenForQuitSignal (Dynamic 0) None []
       [Run First, Run First, Run First, Cancel context_Canceled]) = Some context_Canceled
   \<and> c (ListenForQuitSignal (Dynamic 0) None []
       [Run First, Run First, Run First, Cancel context_Canceled]) = Some []
   \<and> lpc (ListenForQuitSignal (Dynamic 0) None []
       [Run First, Run First, Run First, Cancel context_Canceled, Run Second, Run First])
     = L_returned (Some context_Canceled)
   \<and> \<not> errors_Is (Some context_Canceled) (Some ErrReceivedQuitSignal)"
proof -
  let ?es = "[Run First, Run First, Run First, Cancel context_Canceled]"
  have pc: "lpc (ListenForQuitSignal (Dynamic 0) None [] ?es) = L_select"
    by (simp add: lfqs_defs signal_defs)
  have cx: "lctx (ListenForQuitSignal (Dynamic 0) None [] ?es) = Some context_Canceled"
    by (simp add: lfqs_defs signal_defs)
  have ch: "c (ListenForQuitSignal (Dynamic 0) None [] ?es) = Some []"
    by (simp add: lfqs_defs signal_defs)
  from context_reason_unchanged [OF pc cx disjI1 [OF ch], of Second First]
  have "lpc (ListenForQuitSignal (Dynamic 0) None [] (?es @ [Run Second, Run First]))
      = L_returned (Some context_Canceled)
    \<and> \<not> errors_Is (Some context_Canceled) (Some ErrReceivedQuitSignal)"
    by blast
  then show ?thesis using pc cx ch by simp
qed

text \<open>
  Claim C9. \<^verbatim>\<open>ListenForQuitSignal\<close> never returns nil: in every run of every call, a value
  the function has returned (or has computed for its \<^verbatim>\<open>return\<close>) is not nil. On the signal
  case it is the wrapped sentinel; on the context case it is \<^verbatim>\<open>ctx.Err()\<close>, which is not nil
  once \<^verbatim>\<open>ctx.Done()\<close> is closed.
\<close>

theorem never_returns_nil:
  "lpc (ListenForQuitSignal a ctx0 sigs es) \<noteq> L_returned None
   \<and> (lpc (ListenForQuitSignal a ctx0 sigs es) = L_returned v \<longrightarrow>
        v = lctx (ListenForQuitSignal a ctx0 sigs es) \<or>
        (\<exists>g. v = Some (fmt_Errorf_s_w a (sig_String g) ErrReceivedQuitSignal)))"
  using linv_run [of sigs a ctx0 es] by (auto simp: linv_def alloc_run)

text \<open>
  In the run of the test "parent context cancelled" the value returned is the reason of
  the context, and it is not nil.
\<close>

theorem never_returns_nil_witness:
  "lpc (ListenForQuitSignal (Dynamic 0) None []
       [Run First, Run First, Run First, Cancel context_Canceled, Run Second, Run First])
     = L_returned (Some context_Canceled)
   \<and> lpc (ListenForQuitSignal (Dynamic 0) None []
       [Run First, Run First, Run First, Cancel context_Canceled, Run Second, Run First])
     \<noteq> L_returned None
   \<and> (Some context_Canceled = lctx (ListenForQuitSignal (Dynamic 0) None []
       [Run First, Run First, Run First, Cancel context_Canceled, Run Second, Run First])
     \<or> (\<exists>g. Some context_Canceled
           = Some (fmt_Errorf_s_w (Dynamic 0) (sig_String g) ErrReceivedQuitSignal)))"
proof -
  let ?es = "[Run First, Run First, Run First, Cancel context_Canceled, Run Second, Run First]"
  have pc: "lpc (ListenForQuitSignal (Dynamic 0) None [] ?es) = L_returned (Some context_Canceled)"
    by (simp add: lfqs_defs signal_defs)
  from never_returns_nil [of "Dynamic 0" None "[]" ?es "Some context_Canceled"] pc
  show ?thesis by blast
qed

text \<open>
  Claim C6. In every run of a call of \<^verbatim>\<open>ListenForQuitSignal\<close> with no signals given: the
  channel is never registered for any signal but interrupt (2) and terminate (15), and at
  the \<^verbatim>\<open>select\<close> it is registered for exactly these two; a signal of another number
  leaves the state of the call as it is, at every point of the run; and when the call
  waits at the \<^verbatim>\<open>select\<close> with the context not done and nothing in the channel, the
  delivery of a signal of the pair makes the function return the quit-signal error of
  that signal.
\<close>

theorem default_signals:
  "handlers (ListenForQuitSignal a ctx0 [] es) \<subseteq> {signum os_Interrupt, signum syscall_SIGTERM}
   \<and> (lpc (ListenForQuitSignal a ctx0 [] es) = L_select \<longrightarrow>
        handlers (ListenForQuitSignal a ctx0 [] es)
          = {signum os_Interrupt, signum syscall_SIGTERM})
   \<and> (signum g \<noteq> signum os_Interrupt \<and> signum g \<noteq> signum syscall_SIGTERM \<longrightarrow>
        ListenForQuitSignal a ctx0 [] (es @ [Deliver g]) = ListenForQuitSignal a ctx0 [] es)
   \<and> (lpc (ListenForQuitSignal a ctx0 [] es) = L_select
        \<and> lctx (ListenForQuitSignal a ctx0 [] es) = None
        \<and> c (ListenForQuitSignal a ctx0 [] es) = Some []
        \<and> (signum g = signum os_Interrupt \<or> signum g = signum syscall_SIGTERM) \<longrightarrow>
        lpc (ListenForQuitSignal a ctx0 [] (es @ [Deliver g, Run b, Run b']))
          = L_returned (Some (fmt_Errorf_s_w a (sig_String g) ErrReceivedQuitSignal))
        \<and> errors_Is (Some (fmt_Errorf_s_w a (sig_String g) ErrReceivedQuitSignal))
            (Some ErrReceivedQuitSignal))"
proof -
  let ?s = "ListenForQuitSignal a ctx0 [] es"
  have inv: "linv [] ?s" by (rule linv_run)
  have sub: "handlers ?s \<subseteq> {signum os_Interrupt, signum syscall_SIGTERM}"
    by (rule handlers_default_subset [OF inv])
  have sel: "lpc ?s = L_select \<longrightarrow> handlers ?s = {signum os_Interrupt, signum syscall_SIGTERM}"
    using handlers_default_select [OF inv] by blast
  have out: "signum g \<noteq> signum os_Interrupt \<and> signum g \<noteq> signum syscall_SIGTERM \<longrightarrow>
      ListenForQuitSignal a ctx0 [] (es @ [Deliver g]) = ?s"
  proof
    assume "signum g \<noteq> signum os_Interrupt \<and> signum g \<noteq> signum syscall_SIGTERM"
    with sub have "signum g \<notin> handlers ?s" by blast
    then have "lstep (Deliver g) ?s = ?s" by (rule deliver_unsubscribed)
    then show "ListenForQuitSignal a ctx0 [] (es @ [Deliver g]) = ?s"
      by (simp add: ListenForQuitSignal_append)
  qed
  have ret: "lpc (ListenForQuitSignal a ctx0 [] (es @ [Deliver g, Run b, Run b']))
        = L_returned (Some (fmt_Errorf_s_w a (sig_String g) ErrReceivedQuitSignal))"
    if pc: "lpc ?s = L_select" and cx: "lctx ?s = None" and ch: "c ?s = Some []"
      and g: "signum g = signum os_Interrupt \<or> signum g = signum syscall_SIGTERM"
  proof -
    have "handlers ?s = {signum os_Interrupt, signum syscall_SIGTERM}"
      using sel pc by blast
    with g have reg: "signum g \<in> handlers ?s" by blast
    have d: "lstep (Deliver g) ?s = ?s\<lparr>c := Some [g]\<rparr>"
      by (rule deliver_buffered [OF ch reg default_pair_catchable [OF g]])
    have "lpc (fold lstep [Run b, Run b'] (?s\<lparr>c := Some [g]\<rparr>))
        = L_returned (Some (fmt_Errorf_s_w a (sig_String g) ErrReceivedQuitSignal))"
      using returns_quit_signal [of "?s\<lparr>c := Some [g]\<rparr>" g "[]" b b'] pc cx
      by (simp add: alloc_run)
    then have "lpc (fold lstep [Run b, Run b'] (lstep (Deliver g) ?s))
        = L_returned (Some (fmt_Errorf_s_w a (sig_String g) ErrReceivedQuitSignal))"
      by (simp only: d)
    then show ?thesis
      by (simp only: ListenForQuitSignal_append fold_simps comp_apply)
  qed
  have "errors_Is (Some (fmt_Errorf_s_w a (sig_String g) ErrReceivedQuitSignal))
      (Some ErrReceivedQuitSignal)"
    using errors_Is_quit [of "[]"] by (simp add: wrap_def)
  with sub sel out ret show ?thesis by blast
qed

text \<open>
  The runs of the tests \<^verbatim>\<open>TestSignalSIGTERM\<close> and \<^verbatim>\<open>TestSignalSIGQUITunexpected\<close>: the call
  with no signals given waits at its \<^verbatim>\<open>select\<close>; SIGQUIT changes nothing, SIGTERM makes
  it return \<^verbatim>\<open>terminated: received quit signal\<close>.
\<close>

theorem default_signals_witness:
  "lpc (ListenForQuitSignal (Dynamic 0) None [] [Run First, Run First, Run First]) = L_select
   \<and> lctx (ListenForQuitSignal (Dynamic 0) None [] [Run First, Run First, Run First]) = None
   \<and> c (ListenForQuitSignal (Dynamic 0) None [] [Run First, Run First, Run First]) = Some []
   \<and> handlers (ListenForQuitSignal (Dynamic 0) None [] [Run First, Run First, Run First]) = {2, 15}
   \<and> ListenForQuitSignal (Dynamic 0) None [] [Run First, Run First, Run First, Deliver syscall_SIGQUIT]
      = ListenForQuitSignal (Dynamic 0) None [] [Run First, Run First, Run First]
   \<and> lpc (ListenForQuitSignal (Dynamic 0) None []
        [Run First, Run First, Run First, Deliver syscall_SIGTERM, Run First, Run First])
      = L_returned (Some (wrapError (Dynamic 0) ''terminated: received quit signal'' ErrReceivedQuitSignal))"
proof -
  let ?es = "[Run First, Run First, Run First]"
  have pc: "lpc (ListenForQuitSignal (Dynamic 0) None [] ?es) = L_select"
    by (simp add: lfqs_defs signal_defs)
  have cx: "lctx (ListenForQuitSignal (Dynamic 0) None [] ?es) = None"
    by (simp add: lfqs_defs signal_defs)
  have ch: "c (ListenForQuitSignal (Dynamic 0) None [] ?es) = Some []"
    by (simp add: lfqs_defs signal_defs)
  have q: "signum syscall_SIGQUIT \<noteq> signum os_Interrupt
      \<and> signum syscall_SIGQUIT \<noteq> signum syscall_SIGTERM"
    by (simp add: signal_defs)
  have t: "signum syscall_SIGTERM = signum os_Interrupt
      \<or> signum syscall_SIGTERM = signum syscall_SIGTERM"
    by simp
  have n: "{signum os_Interrupt, signum syscall_SIGTERM} = {2, 15}"
    by (simp add: signal_defs)
  have e: "fmt_Errorf_s_w (Dynamic 0) (sig_String syscall_SIGTERM) ErrReceivedQuitSignal
      = wrapError (Dynamic 0) ''terminated: received quit signal'' ErrReceivedQuitSignal"
    by (simp add: fmt_Errorf_s_w_def syscall_SIGTERM_def ErrReceivedQuitSignal_def)
  from default_signals [of "Dynamic 0" None ?es syscall_SIGQUIT] pc q
  have hs: "handlers (ListenForQuitSignal (Dynamic 0) None [] ?es) = {2, 15}"
    and dq: "ListenForQuitSignal (Dynamic 0) None [] (?es @ [Deliver syscall_SIGQUIT])
      = ListenForQuitSignal (Dynamic 0) None [] ?es"
    unfolding n by blast+
  from default_signals [of "Dynamic 0" None ?es syscall_SIGTERM First First] pc cx ch t
  have rt: "lpc (ListenForQuitSignal (Dynamic 0) None [] (?es @ [Deliver syscall_SIGTERM, Run First, Run First]))
      = L_returned (Some (wrapError (Dynamic 0) ''terminated: received quit signal'' ErrReceivedQuitSignal))"
    unfolding e by blast
  from pc cx ch hs dq rt show ?thesis by simp
qed

text \<open>
  Claim C7. In every run of every call of \<^verbatim>\<open>ListenForQuitSignal\<close>, \<^verbatim>\<open>signal.Notify\<close> and
  \<^verbatim>\<open>signal.Stop\<close> are each called at most once, and \<^verbatim>\<open>signal.Stop\<close> has been called (once)
  exactly when the function has returned. A \<^verbatim>\<open>return\<close> of either case of the \<^verbatim>\<open>select\<close>
  is followed by the deferred \<^verbatim>\<open>signal.Stop\<close>, which empties the registration of the
  channel before the caller gets the value. After the return no event has any effect on
  the call: the value returned, the channel, the empty registration and the count of
  \<^verbatim>\<open>signal.Stop\<close> stay as they are, whatever signals are delivered.
\<close>

theorem subscription_released_once:
  "stops (ListenForQuitSignal a ctx0 sigs es) \<le> 1
   \<and> notifies (ListenForQuitSignal a ctx0 sigs es) \<le> 1
   \<and> (stops (ListenForQuitSignal a ctx0 sigs es) = 1 \<longleftrightarrow>
        (\<exists>v. lpc (ListenForQuitSignal a ctx0 sigs es) = L_returned v))
   \<and> (lpc (ListenForQuitSignal a ctx0 sigs es) = L_deferred v \<longrightarrow>
        handlers (ListenForQuitSignal a ctx0 sigs es) \<noteq> {}
        \<and> lpc (ListenForQuitSignal a ctx0 sigs (es @ [Run b])) = L_returned v
        \<and> handlers (ListenForQuitSignal a ctx0 sigs (es @ [Run b])) = {}
        \<and> stops (ListenForQuitSignal a ctx0 sigs (es @ [Run b])) = 1)
   \<and> (lpc (ListenForQuitSignal a ctx0 sigs es) = L_returned v \<longrightarrow>
        notifies (ListenForQuitSignal a ctx0 sigs es) = 1
        \<and> lpc (ListenForQuitSignal a ctx0 sigs (es @ es')) = L_returned v
        \<and> c (ListenForQuitSignal a ctx0 sigs (es @ es')) = c (ListenForQuitSignal a ctx0 sigs es)
        \<and> handlers (ListenForQuitSignal a ctx0 sigs (es @ es')) = {}
        \<and> stops (ListenForQuitSignal a ctx0 sigs (es @ es')) = 1)"
proof -
  let ?s = "ListenForQuitSignal a ctx0 sigs es"
  have inv: "linv sigs ?s" by (rule linv_run)
  note cnt = stops_count [OF inv]
  have dfr: "handlers ?s \<noteq> {}
      \<and> lpc (ListenForQuitSignal a ctx0 sigs (es @ [Run b])) = L_returned v
      \<and> handlers (ListenForQuitSignal a ctx0 sigs (es @ [Run b])) = {}
      \<and> stops (ListenForQuitSignal a ctx0 sigs (es @ [Run b])) = 1"
    if pc: "lpc ?s = L_deferred v"
  proof -
    have h: "handlers ?s \<noteq> {}" and z: "stops ?s = 0"
      using inv pc by (simp_all add: linv_def default_sig_nonempty)
    have "lrun1 b ?s = ?s\<lparr>handlers := {}, stops := stops ?s + 1, lpc := L_returned v\<rparr>"
      by (rule ldeferred [OF pc])
    then show ?thesis using h z by (simp add: ListenForQuitSignal_append)
  qed
  have rtd: "notifies ?s = 1
      \<and> lpc (ListenForQuitSignal a ctx0 sigs (es @ es')) = L_returned v
      \<and> c (ListenForQuitSignal a ctx0 sigs (es @ es')) = c ?s
      \<and> handlers (ListenForQuitSignal a ctx0 sigs (es @ es')) = {}
      \<and> stops (ListenForQuitSignal a ctx0 sigs (es @ es')) = 1"
    if pc: "lpc ?s = L_returned v"
  proof -
    have h: "handlers ?s = {}" and n: "notifies ?s = 1" and z: "stops ?s = 1"
      using inv pc by (simp_all add: linv_def)
    from lreturned_fold [OF pc h, of es'] n z show ?thesis
      by (simp add: ListenForQuitSignal_append)
  qed
  from cnt dfr rtd show ?thesis by blast
qed

text \<open>
  A run that returns on the signal case: at the \<^verbatim>\<open>return\<close> the channel is still registered
  and \<^verbatim>\<open>signal.Stop\<close> has not run; one step later the function has returned, the
  registration is empty and \<^verbatim>\<open>signal.Stop\<close> has run once; two more signals and a
  cancellation change none of this.
\<close>

theorem subscription_released_once_witness:
  "lpc (ListenForQuitSignal (Dynamic 0) None []
       [Run First, Run First, Run First, Deliver os_Interrupt, Run First])
     = L_deferred (Some (fmt_Errorf_s_w (Dynamic 0) ''interrupt'' ErrReceivedQuitSignal))
   \<and> stops (ListenForQuitSignal (Dynamic 0) None []
       [Run First, Run First, Run First, Deliver os_Interrupt, Run First]) = 0
   \<and> handlers (ListenForQuitSignal (Dynamic 0) None []
       [Run First, Run First, Run First, Deliver os_Interrupt, Run First]) \<noteq> {}
   \<and> lpc (ListenForQuitSignal (Dynamic 0) None []
       [Run First, Run First, Run First, Deliver os_Interrupt, Run First, Run First])
     = L_returned (Some (fmt_Errorf_s_w (Dynamic 0) ''interrupt'' ErrReceivedQuitSignal))
   \<and> stops (ListenForQuitSignal (Dynamic 0) None []
       [Run First, Run First, Run First, Deliver os_Interrupt, Run First, Run First]) = 1
   \<and> handlers (ListenForQuitSignal (Dynamic 0) None []
       [Run First, Run First, Run First, Deliver os_Interrupt, Run First, Run First]) = {}
   \<and> lpc (ListenForQuitSignal (Dynamic 0) None []
       [Run First, Run First, Run First, Deliver os_Interrupt, Run First, Run First,
        Deliver os_Interrupt, Deliver syscall_SIGTERM, Cancel context_Canceled])
     = L_returned (Some (fmt_Errorf_s_w (Dynamic 0) ''interrupt'' ErrReceivedQuitSignal))
   \<and> c (ListenForQuitSignal (Dynamic 0) None []
       [Run First, Run First, Run First, Deliver os_Interrupt, Run First, Run First,
        Deliver os_Interrupt, Deliver syscall_SIGTERM, Cancel context_Canceled])
     = c (ListenForQuitSignal (Dynamic 0) None []
       [Run First, Run First, Run First, Deliver os_Interrupt, Run First, Run First])"
proof -
  let ?es = "[Run First, Run First, Run First, Deliver os_Interrupt, Run First]"
  let ?v = "Some (fmt_Errorf_s_w (Dynamic 0) ''interrupt'' ErrReceivedQuitSignal)"
  have pc: "lpc (ListenForQuitSignal (Dynamic 0) None [] ?es) = L_deferred ?v"
    by (simp add: lfqs_defs signal_defs)
  have z: "stops (ListenForQuitSignal (Dynamic 0) None [] ?es) = 0"
    by (simp add: lfqs_defs signal_defs)
  from subscription_released_once [of "Dynamic 0" None "[]" ?es ?v First] pc
  have a: "handlers (ListenForQuitSignal (Dynamic 0) None [] ?es) \<noteq> {}
      \<and> lpc (ListenForQuitSignal (Dynamic 0) None [] (?es @ [Run First])) = L_returned ?v
      \<and> handlers (ListenForQuitSignal (Dynamic 0) None [] (?es @ [Run First])) = {}
      \<and> stops (ListenForQuitSignal (Dynamic 0) None [] (?es @ [Run First])) = 1"
    by blast
  then have pc': "lpc (ListenForQuitSignal (Dynamic 0) None [] (?es @ [Run First])) = L_returned ?v"
    by blast
  from subscription_released_once [of "Dynamic 0" None "[]" "?es @ [Run First]" ?v First
      "[Deliver os_Interrupt, Deliver syscall_SIGTERM, Cancel context_Canceled]"] pc'
  have b: "lpc (ListenForQuitSignal (Dynamic 0) None [] ((?es @ [Run First])
        @ [Deliver os_Interrupt, Deliver syscall_SIGTERM, Cancel context_Canceled]))
      = L_returned ?v
    \<and> c (ListenForQuitSignal (Dynamic 0) None [] ((?es @ [Run First])
        @ [Deliver os_Interrupt, Deliver syscall_SIGTERM, Cancel context_Canceled]))
      = c (ListenForQuitSignal (Dynamic 0) None [] (?es @ [Run First]))"
    by blast
  from pc z a b show ?thesis by simp
qed

text \<open>
  Claim C8, as amended. In every run of every call of \<^verbatim>\<open>ListenForQuitSignal\<close>, the three
  steps before the \<^verbatim>\<open>select\<close> never block and are taken by the goroutine of the call
  itself: the defaulting, the making of the channel with its buffer of one, and
  \<^verbatim>\<open>signal.Notify\<close>. So when the call is at its \<^verbatim>\<open>select\<close> the channel exists, holds at most
  one signal and is registered for the signals asked for. From then on a subscribed signal
  is not lost: if such a signal is delivered while the call is at the \<^verbatim>\<open>select\<close> and has
  not executed it yet, then, whatever the environment does before the goroutine runs
  again, the channel holds a subscribed signal (the delivered one if the channel was
  empty, else the earlier one), and when the \<^verbatim>\<open>select\<close> takes the signal case (the context
  is not done, or the runtime chooses the second case) the function returns the
  quit-signal error of the signal held.
\<close>

theorem subscription_before_wait:
  "(lpc (ListenForQuitSignal a ctx0 sigs es) = L_entry \<longrightarrow>
      lpc (ListenForQuitSignal a ctx0 sigs (es @ [Run b])) = L_make)
   \<and> (lpc (ListenForQuitSignal a ctx0 sigs es) = L_make \<longrightarrow>
      lpc (ListenForQuitSignal a ctx0 sigs (es @ [Run b])) = L_notify
      \<and> c (ListenForQuitSignal a ctx0 sigs (es @ [Run b])) = Some [])
   \<and> (lpc (ListenForQuitSignal a ctx0 sigs es) = L_notify \<longrightarrow>
      lpc (ListenForQuitSignal a ctx0 sigs (es @ [Run b])) = L_select
      \<and> c (ListenForQuitSignal a ctx0 sigs (es @ [Run b])) = Some []
      \<and> handlers (ListenForQuitSignal a ctx0 sigs (es @ [Run b]))
          = signum ` set (default_sig sigs))
   \<and> (lpc (ListenForQuitSignal a ctx0 sigs es) = L_select \<longrightarrow>
      (c (ListenForQuitSignal a ctx0 sigs es) = Some []
        \<or> (\<exists>g0. c (ListenForQuitSignal a ctx0 sigs es) = Some [g0]))
      \<and> handlers (ListenForQuitSignal a ctx0 sigs es) = signum ` set (default_sig sigs)
      \<and> notifies (ListenForQuitSignal a ctx0 sigs es) = 1
      \<and> stops (ListenForQuitSignal a ctx0 sigs es) = 0)
   \<and> (lpc (ListenForQuitSignal a ctx0 sigs es) = L_select
      \<and> signum g \<in> handlers (ListenForQuitSignal a ctx0 sigs es) \<and> catchable g
      \<and> runs es' = 0 \<longrightarrow>
      (\<exists>g'. (c (ListenForQuitSignal a ctx0 sigs es) = Some [] \<longrightarrow> g' = g)
        \<and> (\<forall>g0. c (ListenForQuitSignal a ctx0 sigs es) = Some [g0] \<longrightarrow> g' = g0)
        \<and> lpc (ListenForQuitSignal a ctx0 sigs (es @ Deliver g # es')) = L_select
        \<and> c (ListenForQuitSignal a ctx0 sigs (es @ Deliver g # es')) = Some [g']
        \<and> (lctx (ListenForQuitSignal a ctx0 sigs (es @ Deliver g # es')) = None \<or> b = Second
            \<longrightarrow>
            lpc (ListenForQuitSignal a ctx0 sigs ((es @ Deliver g # es') @ [Run b, Run b']))
              = L_returned (Some (fmt_Errorf_s_w a (sig_String g') ErrReceivedQuitSignal)))))"
proof -
  let ?s = "ListenForQuitSignal a ctx0 sigs es"
  have inv: "linv sigs ?s" by (rule linv_run)
  have run: "ListenForQuitSignal a ctx0 sigs (es @ [Run b]) = lrun1 b ?s"
    by (simp add: ListenForQuitSignal_append)
  note pre = setup_steps [OF inv, of b, folded run]
  have ready: "lpc ?s = L_select \<longrightarrow>
      (c ?s = Some [] \<or> (\<exists>g0. c ?s = Some [g0]))
      \<and> handlers ?s = signum ` set (default_sig sigs) \<and> notifies ?s = 1 \<and> stops ?s = 0"
    using select_ready [OF inv] by blast
  have kept: "\<exists>g'. (c ?s = Some [] \<longrightarrow> g' = g)
        \<and> (\<forall>g0. c ?s = Some [g0] \<longrightarrow> g' = g0)
        \<and> lpc (ListenForQuitSignal a ctx0 sigs (es @ Deliver g # es')) = L_select
        \<and> c (ListenForQuitSignal a ctx0 sigs (es @ Deliver g # es')) = Some [g']
        \<and> (lctx (ListenForQuitSignal a ctx0 sigs (es @ Deliver g # es')) = None \<or> b = Second
            \<longrightarrow>
            lpc (ListenForQuitSignal a ctx0 sigs ((es @ Deliver g # es') @ [Run b, Run b']))
              = L_returned (Some (fmt_Errorf_s_w a (sig_String g') ErrReceivedQuitSignal)))"
    if pc: "lpc ?s = L_select" and reg: "signum g \<in> handlers ?s" and ca: "catchable g"
      and env: "runs es' = 0"
  proof -
    let ?t = "ListenForQuitSignal a ctx0 sigs (es @ Deliver g # es')"
    have t: "?t = fold lstep es' (lstep (Deliver g) ?s)"
      by (simp add: ListenForQuitSignal_append)
    from signal_kept [OF inv pc reg ca env, folded t]
    obtain g' where g': "c ?s = Some [] \<longrightarrow> g' = g" "\<forall>g0. c ?s = Some [g0] \<longrightarrow> g' = g0"
      and tpc: "lpc ?t = L_select" and tc: "c ?t = Some (g' # [])"
      by blast
    have "lpc (ListenForQuitSignal a ctx0 sigs ((es @ Deliver g # es') @ [Run b, Run b']))
        = L_returned (Some (fmt_Errorf_s_w a (sig_String g') ErrReceivedQuitSignal))"
      if "lctx ?t = None \<or> b = Second"
      using returns_quit_signal [OF tpc tc that, of b']
      by (simp only: ListenForQuitSignal_append [of a ctx0 sigs "es @ Deliver g # es'"]
          alloc_run)
    with g' tpc tc show ?thesis by blast
  qed
  from pre ready kept show ?thesis by blast
qed

text \<open>
  A call with no signals given is at its \<^verbatim>\<open>select\<close> and has not executed it yet. An
  interrupt is delivered, then a terminate (which finds the buffer full) and some time
  passes. The interrupt is still in the channel, and the function returns
  \<^verbatim>\<open>interrupt: received quit signal\<close>. The same holds seen from the terminate: it is
  delivered to a call at its \<^verbatim>\<open>select\<close> whose channel holds the interrupt, the channel
  still holds the interrupt, and that is the signal the function returns.
\<close>

theorem subscription_before_wait_witness:
  "lpc (ListenForQuitSignal (Dynamic 0) None [] [Run First, Run First, Run First]) = L_select
   \<and> signum os_Interrupt \<in> handlers (ListenForQuitSignal (Dynamic 0) None [] [Run First, Run First, Run First])
   \<and> catchable os_Interrupt
   \<and> runs [Deliver syscall_SIGTERM, Tick 5] = 0
   \<and> c (ListenForQuitSignal (Dynamic 0) None [] [Run First, Run First, Run First]) = Some []
   \<and> c (ListenForQuitSignal (Dynamic 0) None []
        [Run First, Run First, Run First, Deliver os_Interrupt, Deliver syscall_SIGTERM, Tick 5])
      = Some [os_Interrupt]
   \<and> lpc (ListenForQuitSignal (Dynamic 0) None []
        [Run First, Run First, Run First, Deliver os_Interrupt, Deliver syscall_SIGTERM, Tick 5,
         Run First, Run First])
      = L_returned (Some (fmt_Errorf_s_w (Dynamic 0) ''interrupt'' ErrReceivedQuitSignal))
   \<and> c (ListenForQuitSignal (Dynamic 0) None []
        [Run First, Run First, Run First, Deliver os_Interrupt]) = Some [os_Interrupt]
   \<and> signum syscall_SIGTERM \<in> handlers (ListenForQuitSignal (Dynamic 0) None []
        [Run First, Run First, Run First, Deliver os_Interrupt])
   \<and> catchable syscall_SIGTERM
   \<and> c (ListenForQuitSignal (Dynamic 0) None []
        [Run First, Run First, Run First, Deliver os_Interrupt, Deliver syscall_SIGTERM])
      = Some [os_Interrupt]
   \<and> lpc (ListenForQuitSignal (Dynamic 0) None []
        [Run First, Run First, Run First, Deliver os_Interrupt, Deliver syscall_SIGTERM,
         Run First, Run First])
      = L_returned (Some (fmt_Errorf_s_w (Dynamic 0) ''interrupt'' ErrReceivedQuitSignal))"
proof -
  let ?es = "[Run First, Run First, Run First]"
  let ?es' = "[Deliver syscall_SIGTERM, Tick 5]"
  have pc: "lpc (ListenForQuitSignal (Dynamic 0) None [] ?es) = L_select"
    by (simp add: lfqs_defs signal_defs)
  have reg: "signum os_Interrupt \<in> handlers (ListenForQuitSignal (Dynamic 0) None [] ?es)"
    by (simp add: lfqs_defs signal_defs)
  have ca: "catchable os_Interrupt"
    by (simp add: catchable_def signal_defs)
  have env: "runs ?es' = 0" by simp
  have ch: "c (ListenForQuitSignal (Dynamic 0) None [] ?es) = Some []"
    by (simp add: lfqs_defs signal_defs)
  have cx: "lctx (ListenForQuitSignal (Dynamic 0) None [] (?es @ Deliver os_Interrupt # ?es')) = None"
    by (simp add: lfqs_defs signal_defs)
  from subscription_before_wait [of "Dynamic 0" None "[]" ?es First os_Interrupt ?es' First]
    pc reg ca env ch cx
  have "c (ListenForQuitSignal (Dynamic 0) None [] (?es @ Deliver os_Interrupt # ?es')) = Some [os_Interrupt]
    \<and> lpc (ListenForQuitSignal (Dynamic 0) None [] ((?es @ Deliver os_Interrupt # ?es') @ [Run First, Run First]))
      = L_returned (Some (fmt_Errorf_s_w (Dynamic 0) (sig_String os_Interrupt) ErrReceivedQuitSignal))"
    by blast
  then have "c (ListenForQuitSignal (Dynamic 0) None [] (?es @ Deliver os_Interrupt # ?es')) = Some [os_Interrupt]
    \<and> lpc (ListenForQuitSignal (Dynamic 0) None [] ((?es @ Deliver os_Interrupt # ?es') @ [Run First, Run First]))
      = L_returned (Some (fmt_Errorf_s_w (Dynamic 0) ''interrupt'' ErrReceivedQuitSignal))"
    by (simp add: os_Interrupt_def)
  note first = this
  let ?fs = "[Run First, Run First, Run First, Deliver os_Interrupt]"
  have pc2: "lpc (ListenForQuitSignal (Dynamic 0) None [] ?fs) = L_select"
    by (simp add: lfqs_defs signal_defs)
  have reg2: "signum syscall_SIGTERM \<in> handlers (ListenForQuitSignal (Dynamic 0) None [] ?fs)"
    by (simp add: lfqs_defs signal_defs)
  have ca2: "catchable syscall_SIGTERM"
    by (simp add: catchable_def signal_defs)
  have env2: "runs [] = 0" by simp
  have ch2: "c (ListenForQuitSignal (Dynamic 0) None [] ?fs) = Some [os_Interrupt]"
    by (simp add: lfqs_defs signal_defs)
  have cx2: "lctx (ListenForQuitSignal (Dynamic 0) None [] (?fs @ Deliver syscall_SIGTERM # []))
      = None"
    by (simp add: lfqs_defs signal_defs)
  from subscription_before_wait
    [of "Dynamic 0" None "[]" ?fs First syscall_SIGTERM "[]" First]
    pc2 reg2 ca2 env2
  obtain g' where held: "\<forall>g0. c (ListenForQuitSignal (Dynamic 0) None [] ?fs) = Some [g0]
      \<longrightarrow> g' = g0"
    and buf: "c (ListenForQuitSignal (Dynamic 0) None [] (?fs @ Deliver syscall_SIGTERM # []))
      = Some [g']"
    and ret: "lctx (ListenForQuitSignal (Dynamic 0) None []
        (?fs @ Deliver syscall_SIGTERM # [])) = None \<or> First = Second \<longrightarrow>
      lpc (ListenForQuitSignal (Dynamic 0) None []
        ((?fs @ Deliver syscall_SIGTERM # []) @ [Run First, Run First]))
      = L_returned (Some (fmt_Errorf_s_w (Dynamic 0) (sig_String g') ErrReceivedQuitSignal))"
    by blast
  from held ch2 have "g' = os_Interrupt" by blast
  with buf ret cx2
  have "c (ListenForQuitSignal (Dynamic 0) None [] (?fs @ Deliver syscall_SIGTERM # []))
      = Some [os_Interrupt]
    \<and> lpc (ListenForQuitSignal (Dynamic 0) None []
        ((?fs @ Deliver syscall_SIGTERM # []) @ [Run First, Run First]))
      = L_returned (Some (fmt_Errorf_s_w (Dynamic 0) (sig_String os_Interrupt)
          ErrReceivedQuitSignal))"
    by simp
  then have second: "c (ListenForQuitSignal (Dynamic 0) None []
        (?fs @ Deliver syscall_SIGTERM # [])) = Some [os_Interrupt]
    \<and> lpc (ListenForQuitSignal (Dynamic 0) None []
        ((?fs @ Deliver syscall_SIGTERM # []) @ [Run First, Run First]))
      = L_returned (Some (fmt_Errorf_s_w (Dynamic 0) ''interrupt'' ErrReceivedQuitSignal))"
    by (simp add: os_Interrupt_def)
  from first second pc reg ca env ch reg2 ca2 ch2 show ?thesis by simp
qed

text \<open>
  Claim C8 as it is stated does not hold of every signal delivered between the call and
  the \<^verbatim>\<open>select\<close>. In the first run an interrupt is delivered after the first step of a call
  with no signals given, before \<^verbatim>\<open>signal.Notify\<close> has run: at the \<^verbatim>\<open>select\<close> the channel is
  empty and the step of the function changes nothing, the function stays blocked. In the
  second run the interrupt is delivered at the \<^verbatim>\<open>select\<close>, and buffered, then the context
  is cancelled and the runtime chooses the first case: the function returns
  \<^verbatim>\<open>context.Canceled\<close>. In the third run a terminate is delivered after an interrupt, both
  at the \<^verbatim>\<open>select\<close>: it is not buffered, the channel holds the interrupt alone.
\<close>

theorem signal_lost_counterexample:
  "lpc (ListenForQuitSignal (Dynamic 0) None [] [Run First, Deliver os_Interrupt, Run First, Run First])
     = L_select
   \<and> c (ListenForQuitSignal (Dynamic 0) None [] [Run First, Deliver os_Interrupt, Run First, Run First])
     = Some []
   \<and> ListenForQuitSignal (Dynamic 0) None []
       [Run First, Deliver os_Interrupt, Run First, Run First, Run Second]
     = ListenForQuitSignal (Dynamic 0) None [] [Run First, Deliver os_Interrupt, Run First, Run First]
   \<and> c (ListenForQuitSignal (Dynamic 0) None []
       [Run First, Run First, Run First, Deliver os_Interrupt, Cancel context_Canceled])
     = Some [os_Interrupt]
   \<and> lpc (ListenForQuitSignal (Dynamic 0) None []
       [Run First, Run First, Run First, Deliver os_Interrupt, Cancel context_Canceled,
        Run First, Run First])
     = L_returned (Some context_Canceled)
   \<and> c (ListenForQuitSignal (Dynamic 0) None []
       [Run First, Run First, Run First, Deliver os_Interrupt, Deliver syscall_SIGTERM])
     = Some [os_Interrupt]"
  by (simp add: lfqs_defs signal_defs)

section \<open>Runs of WaitWithTimeout\<close>

lemma winv_init: "winv d (winit ctx0 d t0)"
  by (simp add: winv_def winit_def)

lemma winv_step: "winv d s \<Longrightarrow> winv d (wstep e s)"
proof (cases e)
  case (Cancel r)
  assume "winv d s"
  then show ?thesis using Cancel by (auto simp: winv_def split: wpc.splits gpc.splits)
next
  case (Tick n)
  assume "winv d s"
  then show ?thesis using Tick by (auto simp: winv_def split: wpc.splits gpc.splits)
next
  case (Run b)
  assume "winv d s"
  then show ?thesis using Run
    by (auto simp: winv_def wrun1_def wselect_def time_when_def timer_ready_def
        split: wpc.splits gpc.splits option.splits list.splits)
next
  case Go
  assume "winv d s"
  then show ?thesis using Go
    by (auto simp: winv_def gorun1_def split: wpc.splits gpc.splits option.splits)
next
  case (WaitReturns v)
  assume "winv d s"
  then show ?thesis using WaitReturns
    by (auto simp: winv_def split: wpc.splits gpc.splits)
qed simp_all

lemma winv_fold: "winv d s \<Longrightarrow> winv d (fold wstep es s)"
  by (induction es arbitrary: s) (simp_all add: winv_step)

lemma winv_run: "winv d (WaitWithTimeout ctx0 d t0 es)"
  by (simp add: WaitWithTimeout_def winv_fold winv_init)

lemma WaitWithTimeout_append:
  "WaitWithTimeout ctx0 d t0 (es @ es') = fold wstep es' (WaitWithTimeout ctx0 d t0 es)"
  by (simp add: WaitWithTimeout_def)

lemma wselect_rec:
  "wpc s = W_select \<Longrightarrow> rec s = Some (v # rest) \<Longrightarrow> \<not> timer_ready s \<or> b = First \<Longrightarrow>
   wrun1 b s = s\<lparr>rec := Some rest, wpc := W_returned v\<rparr>"
  by (auto simp: wrun1_def wselect_def)

lemma wselect_timer:
  "wpc s = W_select \<Longrightarrow> timer_ready s \<Longrightarrow> rec s = Some [] \<or> b = Second \<Longrightarrow>
   wrun1 b s = s\<lparr>wpc := W_returned (Some ErrWaitDeadlineExceeded)\<rparr>"
  by (auto simp: wrun1_def wselect_def split: option.splits list.splits)

lemma delivered_is_wait_ret:
  "winv d s \<Longrightarrow> rec s = Some (v # rest) \<Longrightarrow> wait_ret s = Some v \<and> rest = []"
  by (cases "gpc s") (auto simp: winv_def split: wpc.splits)

lemma send_enabled: "winv d s \<Longrightarrow> gpc s = G_send v \<Longrightarrow> gorun1 s = s\<lparr>rec := Some [v], gpc := G_exit\<rparr>"
  by (simp add: winv_def gorun1_def)

lemma wreturned_step: "wpc s = W_returned r \<Longrightarrow> wpc (wstep e s) = W_returned r"
  by (cases e) (simp_all add: wrun1_def gorun1_def split: gpc.splits option.splits)

lemma wreturned_fold: "wpc s = W_returned r \<Longrightarrow> wpc (fold wstep es s) = W_returned r"
  by (induction es arbitrary: s) (simp_all add: wreturned_step)

lemma before_cancel:
  "winv d s \<Longrightarrow> wctx s = None \<Longrightarrow>
   calls s = 0 \<and> wpc s = W_done \<and> gpc s = G_none \<and> rec s = None \<and> timer s = None"
  by (cases "wpc s") (auto simp: winv_def)

lemma calls_by_gpc:
  "winv d s \<Longrightarrow> calls s \<le> 1 \<and> (calls s = 0 \<longleftrightarrow> gpc s = G_none \<or> gpc s = G_start)"
  by (cases "gpc s") (auto simp: winv_def)

lemma calls_only_go: "e \<noteq> Go \<Longrightarrow> calls (wstep e s) = calls s"
  by (cases e) (simp_all add: wrun1_def wselect_def split: wpc.splits option.splits list.splits)

lemma go_calls_wait: "winv d s \<Longrightarrow> gpc s = G_start \<Longrightarrow> calls (gorun1 s) = 1"
  by (simp add: winv_def gorun1_def)

lemma wctx_kept: "wctx s \<noteq> None \<Longrightarrow> wctx (wstep e s) \<noteq> None"
  by (cases e)
    (simp_all add: wrun1_def wselect_def gorun1_def
      split: wpc.splits gpc.splits option.splits list.splits)

lemma env_keeps_wpc: "runs [e] = 0 \<Longrightarrow> wpc (wstep e s) = wpc s"
  by (cases e) (simp_all add: gorun1_def split: gpc.splits option.splits)

lemma run_progress:
  "winv d s \<Longrightarrow> d \<le> 0 \<Longrightarrow> wctx s \<noteq> None \<Longrightarrow>
   steps_left (wpc (wrun1 b s)) = steps_left (wpc s) - 1"
  by (cases "wpc s")
    (auto simp: winv_def wrun1_def wselect_def timer_ready_def split: option.splits list.splits)

lemma returns_within:
  "winv d s \<Longrightarrow> d \<le> 0 \<Longrightarrow> wctx s \<noteq> None \<Longrightarrow> steps_left (wpc s) \<le> runs es \<Longrightarrow>
   \<exists>v. wpc (fold wstep es s) = W_returned v"
proof (induction es arbitrary: s)
  case Nil
  then show ?case by (cases "wpc s") simp_all
next
  case (Cons e es)
  have inv: "winv d (wstep e s)" by (rule winv_step [OF Cons.prems(1)])
  have cx: "wctx (wstep e s) \<noteq> None" by (rule wctx_kept [OF Cons.prems(3)])
  have "steps_left (wpc (wstep e s)) \<le> runs es"
  proof (cases "\<exists>b. e = Run b")
    case True
    then obtain b where e: "e = Run b" by blast
    from run_progress [OF Cons.prems(1-3), of b] Cons.prems(4) e
    show ?thesis by simp
  next
    case False
    then have r: "runs [e] = 0" "runs (e # es) = runs es" by (cases e; simp)+
    from env_keeps_wpc [OF r(1), of s] Cons.prems(4) r(2) show ?thesis by simp
  qed
  from Cons.IH [OF inv Cons.prems(2) cx this] show ?case by simp
qed

lemma returned_value:
  "winv d s \<Longrightarrow> wpc s = W_returned v \<Longrightarrow>
   v = Some ErrWaitDeadlineExceeded \<or> wait_ret s = Some v"
  by (auto simp: winv_def)

lemmas wwt_defs = WaitWithTimeout_def winit_def wrun1_def gorun1_def wselect_def
  timer_ready_def time_when_def

lemma steps_left_le: "steps_left p \<le> 5"
  by (cases p) simp_all

lemma timer_fired_at_once:
  "winv d s \<Longrightarrow> d \<le> 0 \<Longrightarrow> wpc s = W_select \<Longrightarrow> timer_ready s"
  by (auto simp: winv_def timer_ready_def)

lemma timer_after:
  "winv d s \<Longrightarrow> wpc s = W_after \<Longrightarrow>
   timer_ready (wstep (Tick n) (wrun1 b s)) \<longleftrightarrow> d \<le> int n"
  by (auto simp: winv_def wrun1_def timer_ready_def time_when_def)

section \<open>The claims about WaitWithTimeout\<close>

text \<open>
  Claim C3, as amended. Whenever a call of \<^verbatim>\<open>WaitWithTimeout\<close> is at its \<^verbatim>\<open>select\<close> with a
  value \<open>v\<close> in the channel \<^verbatim>\<open>rec\<close> and the receive from \<^verbatim>\<open>rec\<close> is the case taken (the
  timer has not fired, or both cases are ready and the runtime chooses the first), the
  function returns \<open>v\<close>, and \<open>v\<close> is what the call of \<^verbatim>\<open>wait\<close> returned: nil for nil, and
  for an error the same allocation, which \<^verbatim>\<open>errors.Is\<close> matches.
\<close>

theorem wait_result_verbatim:
  assumes "wpc (WaitWithTimeout ctx0 d t0 es) = W_select"
    and "rec (WaitWithTimeout ctx0 d t0 es) = Some (v # rest)"
    and "\<not> timer_ready (WaitWithTimeout ctx0 d t0 es) \<or> b = First"
  shows "wpc (WaitWithTimeout ctx0 d t0 (es @ [Run b])) = W_returned v
    \<and> wait_ret (WaitWithTimeout ctx0 d t0 es) = Some v
    \<and> errors_Is v v"
proof -
  let ?s = "WaitWithTimeout ctx0 d t0 es"
  have inv: "winv d ?s" by (rule winv_run)
  have "wrun1 b ?s = ?s\<lparr>rec := Some rest, wpc := W_returned v\<rparr>"
    by (rule wselect_rec [OF assms])
  then have "wpc (WaitWithTimeout ctx0 d t0 (es @ [Run b])) = W_returned v"
    by (simp add: WaitWithTimeout_append)
  moreover have "wait_ret ?s = Some v"
    using delivered_is_wait_ret [OF inv assms(2)] by blast
  ultimately show ?thesis by (simp add: errors_Is_refl)
qed

text \<open>
  The run of the test "wait returns non-nil error before timeout": the context is
  cancelled, the function reaches its \<^verbatim>\<open>select\<close> with a timer of one second, \<^verbatim>\<open>wait\<close>
  returns an error, which is sent on \<^verbatim>\<open>rec\<close> one nanosecond before the timer fires, and
  the function returns that error. An error of the same text at another address is
  another error.
\<close>

theorem wait_result_verbatim_witness:
  "wpc (WaitWithTimeout None 1000000000 0
       [Cancel context_Canceled, Run First, Run First, Run First, Run First, Go,
        WaitReturns (Some (errorString (Dynamic 1) ''error from wait'')), Tick 999999999, Go]) = W_select
   \<and> rec (WaitWithTimeout None 1000000000 0
       [Cancel context_Canceled, Run First, Run First, Run First, Run First, Go,
        WaitReturns (Some (errorString (Dynamic 1) ''error from wait'')), Tick 999999999, Go])
     = Some [Some (errorString (Dynamic 1) ''error from wait'')]
   \<and> \<not> timer_ready (WaitWithTimeout None 1000000000 0
       [Cancel context_Canceled, Run First, Run First, Run First, Run First, Go,
        WaitReturns (Some (errorString (Dynamic 1) ''error from wait'')), Tick 999999999, Go])
   \<and> wpc (WaitWithTimeout None 1000000000 0
       [Cancel context_Canceled, Run First, Run First, Run First, Run First, Go,
        WaitReturns (Some (errorString (Dynamic 1) ''error from wait'')), Tick 999999999, Go, Run Second])
     = W_returned (Some (errorString (Dynamic 1) ''error from wait''))
   \<and> errors_Is (Some (errorString (Dynamic 1) ''error from wait''))
       (Some (errorString (Dynamic 1) ''error from wait''))
   \<and> \<not> errors_Is (Some (errorString (Dynamic 2) ''error from wait''))
       (Some (errorString (Dynamic 1) ''error from wait''))"
proof -
  let ?es = "[Cancel context_Canceled, Run First, Run First, Run First, Run First, Go,
    WaitReturns (Some (errorString (Dynamic 1) ''error from wait'')), Tick 999999999, Go]"
  have pc: "wpc (WaitWithTimeout None 1000000000 0 ?es) = W_select"
    by (simp add: wwt_defs)
  have ch: "rec (WaitWithTimeout None 1000000000 0 ?es)
      = Some [Some (errorString (Dynamic 1) ''error from wait'')]"
    by (simp add: wwt_defs)
  have tm: "\<not> timer_ready (WaitWithTimeout None 1000000000 0 ?es)"
    by (simp add: wwt_defs)
  from wait_result_verbatim [OF pc ch disjI1 [OF tm], of Second]
  have "wpc (WaitWithTimeout None 1000000000 0 (?es @ [Run Second]))
      = W_returned (Some (errorString (Dynamic 1) ''error from wait''))
    \<and> errors_Is (Some (errorString (Dynamic 1) ''error from wait''))
       (Some (errorString (Dynamic 1) ''error from wait''))"
    by blast
  moreover have "\<not> errors_Is (Some (errorString (Dynamic 2) ''error from wait''))
      (Some (errorString (Dynamic 1) ''error from wait''))"
    by (simp add: errors_Is_def)
  ultimately show ?thesis using pc ch tm by simp
qed

text \<open>
  Claim C3 as it is stated does not hold of every call in which \<^verbatim>\<open>wait\<close> completes before
  the timer fires. In the first run \<^verbatim>\<open>wait\<close> returns nil and the goroutine sends it on
  \<^verbatim>\<open>rec\<close> at once, a second before the timer fires; the function's goroutine runs its
  \<^verbatim>\<open>select\<close> only after that second, both cases are ready, the runtime chooses the second,
  and the function returns \<^verbatim>\<open>ErrWaitDeadlineExceeded\<close>. In the second run \<^verbatim>\<open>wait\<close> returns
  nil before the timer fires, but the goroutine has not sent it when the timer fires and
  the \<^verbatim>\<open>select\<close> runs: the function returns \<^verbatim>\<open>ErrWaitDeadlineExceeded\<close> whatever the runtime
  chooses.
\<close>

theorem wait_first_counterexample:
  "wait_ret (WaitWithTimeout None 1000000000 0
       [Cancel context_Canceled, Run First, Run First, Run First, Run First, Go,
        WaitReturns None, Go]) = Some None
   \<and> rec (WaitWithTimeout None 1000000000 0
       [Cancel context_Canceled, Run First, Run First, Run First, Run First, Go,
        WaitReturns None, Go]) = Some [None]
   \<and> \<not> timer_ready (WaitWithTimeout None 1000000000 0
       [Cancel context_Canceled, Run First, Run First, Run First, Run First, Go,
        WaitReturns None, Go])
   \<and> wpc (WaitWithTimeout None 1000000000 0
       [Cancel context_Canceled, Run First, Run First, Run First, Run First, Go,
        WaitReturns None, Go, Tick 1000000000, Run Second])
     = W_returned (Some ErrWaitDeadlineExceeded)
   \<and> wait_ret (WaitWithTimeout None 1000000000 0
       [Cancel context_Canceled, Run First, Run First, Run First, Run First, Go,
        WaitReturns None]) = Some None
   \<and> \<not> timer_ready (WaitWithTimeout None 1000000000 0
       [Cancel context_Canceled, Run First, Run First, Run First, Run First, Go,
        WaitReturns None])
   \<and> wpc (WaitWithTimeout None 1000000000 0
       [Cancel context_Canceled, Run First, Run First, Run First, Run First, Go,
        WaitReturns None, Tick 1000000000, Run First])
     = W_returned (Some ErrWaitDeadlineExceeded)
   \<and> Some ErrWaitDeadlineExceeded \<noteq> None"
  by (simp add: wwt_defs)

text \<open>
  Claim C4, as amended. The timer made on entering the \<^verbatim>\<open>select\<close> has fired \<open>n\<close>
  nanoseconds later exactly when \<^verbatim>\<open>timeout\<close> is at most \<open>n\<close>. Whenever a call of
  \<^verbatim>\<open>WaitWithTimeout\<close> is at its \<^verbatim>\<open>select\<close> with the timer fired and the timer case is the one
  taken (nothing is in \<^verbatim>\<open>rec\<close>, or both cases are ready and the runtime chooses the
  second), the function returns \<^verbatim>\<open>ErrWaitDeadlineExceeded\<close> and changes nothing else:
  the goroutine that runs \<^verbatim>\<open>wait\<close> stays where it is, neither cancelled nor waited for.
  After the return the value returned stays what it is, whatever \<^verbatim>\<open>wait\<close> returns later.
  And in every run, before or after the return, the goroutine goes on by itself: when
  \<^verbatim>\<open>wait\<close> returns it is at its send, and at its send the buffer of \<^verbatim>\<open>rec\<close> is empty, so
  the send is done at once and the goroutine ends.
\<close>

theorem wait_deadline_exceeded:
  "(wpc (WaitWithTimeout ctx0 d t0 es) = W_select
      \<and> timer_ready (WaitWithTimeout ctx0 d t0 es)
      \<and> (rec (WaitWithTimeout ctx0 d t0 es) = Some [] \<or> b = Second) \<longrightarrow>
      WaitWithTimeout ctx0 d t0 (es @ [Run b])
        = (WaitWithTimeout ctx0 d t0 es)\<lparr>wpc := W_returned (Some ErrWaitDeadlineExceeded)\<rparr>)
   \<and> (wpc (WaitWithTimeout ctx0 d t0 es) = W_returned r \<longrightarrow>
      wpc (WaitWithTimeout ctx0 d t0 (es @ es')) = W_returned r)
   \<and> (gpc (WaitWithTimeout ctx0 d t0 es) = G_waiting \<longrightarrow>
      gpc (WaitWithTimeout ctx0 d t0 (es @ [WaitReturns v])) = G_send v)
   \<and> (gpc (WaitWithTimeout ctx0 d t0 es) = G_send v \<longrightarrow>
      rec (WaitWithTimeout ctx0 d t0 es) = Some []
      \<and> WaitWithTimeout ctx0 d t0 (es @ [Go])
        = (WaitWithTimeout ctx0 d t0 es)\<lparr>rec := Some [v], gpc := G_exit\<rparr>)
   \<and> (wpc (WaitWithTimeout ctx0 d t0 es) = W_after \<longrightarrow>
      (timer_ready (WaitWithTimeout ctx0 d t0 (es @ [Run b, Tick n])) \<longleftrightarrow> d \<le> int n))"
proof -
  let ?s = "WaitWithTimeout ctx0 d t0 es"
  have inv: "winv d ?s" by (rule winv_run)
  have tmr: "timer_ready (WaitWithTimeout ctx0 d t0 (es @ [Run b, Tick n])) \<longleftrightarrow> d \<le> int n"
    if "wpc ?s = W_after"
    using timer_after [OF inv that, of n b] by (simp add: WaitWithTimeout_append)
  have tmo: "WaitWithTimeout ctx0 d t0 (es @ [Run b])
      = ?s\<lparr>wpc := W_returned (Some ErrWaitDeadlineExceeded)\<rparr>"
    if "wpc ?s = W_select" and "timer_ready ?s" and "rec ?s = Some [] \<or> b = Second"
    using wselect_timer [OF that] by (simp add: WaitWithTimeout_append)
  have kept: "wpc (WaitWithTimeout ctx0 d t0 (es @ es')) = W_returned r"
    if "wpc ?s = W_returned r"
    using wreturned_fold [OF that] by (simp add: WaitWithTimeout_append)
  have ret: "gpc (WaitWithTimeout ctx0 d t0 (es @ [WaitReturns v])) = G_send v"
    if "gpc ?s = G_waiting"
    using that by (simp add: WaitWithTimeout_append)
  have snd: "rec ?s = Some []
      \<and> WaitWithTimeout ctx0 d t0 (es @ [Go]) = ?s\<lparr>rec := Some [v], gpc := G_exit\<rparr>"
    if pc: "gpc ?s = G_send v"
  proof -
    have "rec ?s = Some []" using inv pc by (simp add: winv_def)
    moreover have "gorun1 ?s = ?s\<lparr>rec := Some [v], gpc := G_exit\<rparr>"
      by (rule send_enabled [OF inv pc])
    ultimately show ?thesis by (simp add: WaitWithTimeout_append)
  qed
  from tmo kept ret snd tmr show ?thesis by blast
qed

text \<open>
  The run of the test "wait blocks longer than timeout": the context is cancelled, the
  function reaches its \<^verbatim>\<open>select\<close> with a timer of one second, \<^verbatim>\<open>wait\<close> is called, one
  second passes, and the function returns \<^verbatim>\<open>ErrWaitDeadlineExceeded\<close> with the goroutine
  still inside \<^verbatim>\<open>wait\<close>. Half a second later \<^verbatim>\<open>wait\<close> returns nil, the goroutine sends it
  and ends; the value the function returned is as before.
\<close>

theorem wait_deadline_exceeded_witness:
  "wpc (WaitWithTimeout None 1000000000 0
       [Cancel context_Canceled, Run First, Run First, Run First, Run First, Go,
        Tick 1000000000]) = W_select
   \<and> timer_ready (WaitWithTimeout None 1000000000 0
       [Cancel context_Canceled, Run First, Run First, Run First, Run First, Go,
        Tick 1000000000])
   \<and> rec (WaitWithTimeout None 1000000000 0
       [Cancel context_Canceled, Run First, Run First, Run First, Run First, Go,
        Tick 1000000000]) = Some []
   \<and> wpc (WaitWithTimeout None 1000000000 0
       [Cancel context_Canceled, Run First, Run First, Run First, Run First, Go,
        Tick 1000000000, Run First]) = W_returned (Some ErrWaitDeadlineExceeded)
   \<and> gpc (WaitWithTimeout None 1000000000 0
       [Cancel context_Canceled, Run First, Run First, Run First, Run First, Go,
        Tick 1000000000, Run First]) = G_waiting
   \<and> gpc (WaitWithTimeout None 1000000000 0
       [Cancel context_Canceled, Run First, Run First, Run First, Run First, Go,
        Tick 1000000000, Run First, Tick 500000000, WaitReturns None]) = G_send None
   \<and> gpc (WaitWithTimeout None 1000000000 0
       [Cancel context_Canceled, Run First, Run First, Run First, Run First, Go,
        Tick 1000000000, Run First, Tick 500000000, WaitReturns None, Go]) = G_exit
   \<and> wpc (WaitWithTimeout None 1000000000 0
       [Cancel context_Canceled, Run First, Run First, Run First, Run First, Go,
        Tick 1000000000, Run First, Tick 500000000, WaitReturns None, Go])
     = W_returned (Some ErrWaitDeadlineExceeded)
   \<and> wpc (WaitWithTimeout None 1000000000 0
       [Cancel context_Canceled, Run First, Run First, Run First]) = W_after
   \<and> \<not> timer_ready (WaitWithTimeout None 1000000000 0
       [Cancel context_Canceled, Run First, Run First, Run First, Run First, Tick 999999999])
   \<and> timer_ready (WaitWithTimeout None 1000000000 0
       [Cancel context_Canceled, Run First, Run First, Run First, Run First, Tick 1000000000])"
proof -
  let ?es = "[Cancel context_Canceled, Run First, Run First, Run First, Run First, Go,
    Tick 1000000000]"
  let ?es2 = "?es @ [Run First, Tick 500000000, WaitReturns None]"
  have pc: "wpc (WaitWithTimeout None 1000000000 0 ?es) = W_select"
    by (simp add: wwt_defs)
  have tm: "timer_ready (WaitWithTimeout None 1000000000 0 ?es)"
    by (simp add: wwt_defs)
  have ch: "rec (WaitWithTimeout None 1000000000 0 ?es) = Some []"
    by (simp add: wwt_defs)
  have gw: "gpc (WaitWithTimeout None 1000000000 0 ?es) = G_waiting"
    by (simp add: wwt_defs)
  from wait_deadline_exceeded [of None 1000000000 0 ?es First] pc tm ch
  have st: "WaitWithTimeout None 1000000000 0 (?es @ [Run First])
      = (WaitWithTimeout None 1000000000 0 ?es)\<lparr>wpc := W_returned (Some ErrWaitDeadlineExceeded)\<rparr>"
    by blast
  have rt: "wpc (WaitWithTimeout None 1000000000 0 (?es @ [Run First]))
      = W_returned (Some ErrWaitDeadlineExceeded)"
    and gw': "gpc (WaitWithTimeout None 1000000000 0 (?es @ [Run First])) = G_waiting"
    unfolding st using gw by simp_all
  from wait_deadline_exceeded [of None 1000000000 0 "?es @ [Run First]" First
      "Some ErrWaitDeadlineExceeded" "[Tick 500000000, WaitReturns None, Go]"] rt
  have late: "wpc (WaitWithTimeout None 1000000000 0
      ((?es @ [Run First]) @ [Tick 500000000, WaitReturns None, Go]))
      = W_returned (Some ErrWaitDeadlineExceeded)"
    by blast
  have gs: "gpc (WaitWithTimeout None 1000000000 0 ?es2) = G_send None"
    by (simp add: wwt_defs)
  from wait_deadline_exceeded [of None 1000000000 0 ?es2 _ _ _ None] gs
  have "WaitWithTimeout None 1000000000 0 (?es2 @ [Go])
      = (WaitWithTimeout None 1000000000 0 ?es2)\<lparr>rec := Some [None], gpc := G_exit\<rparr>"
    by blast
  then have ge: "gpc (WaitWithTimeout None 1000000000 0 (?es2 @ [Go])) = G_exit"
    by simp
  have pa: "wpc (WaitWithTimeout None 1000000000 0
      [Cancel context_Canceled, Run First, Run First, Run First]) = W_after"
    by (simp add: wwt_defs)
  from wait_deadline_exceeded [of None 1000000000 0
      "[Cancel context_Canceled, Run First, Run First, Run First]" First _ _ _ 999999999] pa
  have t1: "\<not> timer_ready (WaitWithTimeout None 1000000000 0
      ([Cancel context_Canceled, Run First, Run First, Run First]
        @ [Run First, Tick 999999999]))"
    by simp
  from wait_deadline_exceeded [of None 1000000000 0
      "[Cancel context_Canceled, Run First, Run First, Run First]" First _ _ _ 1000000000] pa
  have t2: "timer_ready (WaitWithTimeout None 1000000000 0
      ([Cancel context_Canceled, Run First, Run First, Run First]
        @ [Run First, Tick 1000000000]))"
    by simp
  from pc tm ch rt gw' gs ge late pa t1 t2 show ?thesis by simp
qed

text \<open>
  Claim C4 as it is stated does not hold of every call in which the timer fires before
  \<^verbatim>\<open>wait\<close> delivers its result. In this run the timer fires with nothing in \<^verbatim>\<open>rec\<close>; then
  \<^verbatim>\<open>wait\<close> returns nil and the goroutine sends it; the function's goroutine runs its
  \<^verbatim>\<open>select\<close> only after that, both cases are ready, the runtime chooses the first, and
  the function returns nil.
\<close>

theorem timer_first_counterexample:
  "timer_ready (WaitWithTimeout None 1000000000 0
       [Cancel context_Canceled, Run First, Run First, Run First, Run First, Go,
        Tick 1000000000])
   \<and> rec (WaitWithTimeout None 1000000000 0
       [Cancel context_Canceled, Run First, Run First, Run First, Run First, Go,
        Tick 1000000000]) = Some []
   \<and> wait_ret (WaitWithTimeout None 1000000000 0
       [Cancel context_Canceled, Run First, Run First, Run First, Run First, Go,
        Tick 1000000000]) = None
   \<and> wpc (WaitWithTimeout None 1000000000 0
       [Cancel context_Canceled, Run First, Run First, Run First, Run First, Go,
        Tick 1000000000, WaitReturns None, Go, Run First])
     = W_returned None
   \<and> None \<noteq> Some ErrWaitDeadlineExceeded"
  by (simp add: wwt_defs)

text \<open>
  Claim C5. In every run of every call of \<^verbatim>\<open>WaitWithTimeout\<close>: as long as the context is
  not done the function is at line 103 and nothing else has happened (no channel, no
  goroutine, no timer, no call of \<^verbatim>\<open>wait\<close>); \<^verbatim>\<open>wait\<close> is called at most once; no event
  but a step of the goroutine of line 107 changes the number of its calls, so the
  function's own goroutine never calls it; the goroutine is started by the \<^verbatim>\<open>go\<close>
  statement, which the function reaches only with the context done; and the first step
  of that goroutine makes the one call.
\<close>

theorem wait_called_once_after_cancel:
  "(wctx (WaitWithTimeout ctx0 d t0 es) = None \<longrightarrow>
      calls (WaitWithTimeout ctx0 d t0 es) = 0
      \<and> wpc (WaitWithTimeout ctx0 d t0 es) = W_done
      \<and> gpc (WaitWithTimeout ctx0 d t0 es) = G_none
      \<and> rec (WaitWithTimeout ctx0 d t0 es) = None
      \<and> timer (WaitWithTimeout ctx0 d t0 es) = None)
   \<and> calls (WaitWithTimeout ctx0 d t0 es) \<le> 1
   \<and> (calls (WaitWithTimeout ctx0 d t0 es) = 0 \<longleftrightarrow>
        gpc (WaitWithTimeout ctx0 d t0 es) = G_none
        \<or> gpc (WaitWithTimeout ctx0 d t0 es) = G_start)
   \<and> (e \<noteq> Go \<longrightarrow>
        calls (WaitWithTimeout ctx0 d t0 (es @ [e])) = calls (WaitWithTimeout ctx0 d t0 es))
   \<and> (wpc (WaitWithTimeout ctx0 d t0 es) = W_go \<longrightarrow>
        wctx (WaitWithTimeout ctx0 d t0 es) \<noteq> None
        \<and> gpc (WaitWithTimeout ctx0 d t0 es) = G_none
        \<and> gpc (WaitWithTimeout ctx0 d t0 (es @ [Run b])) = G_start)
   \<and> (gpc (WaitWithTimeout ctx0 d t0 es) = G_start \<longrightarrow>
        calls (WaitWithTimeout ctx0 d t0 (es @ [Go])) = 1)"
proof -
  let ?s = "WaitWithTimeout ctx0 d t0 es"
  have inv: "winv d ?s" by (rule winv_run)
  note pre = before_cancel [OF inv]
  note cnt = calls_by_gpc [OF inv]
  have only: "calls (WaitWithTimeout ctx0 d t0 (es @ [e])) = calls ?s" if "e \<noteq> Go"
    using calls_only_go [OF that, of ?s] by (simp add: WaitWithTimeout_append)
  have spawn: "wctx ?s \<noteq> None \<and> gpc ?s = G_none
      \<and> gpc (WaitWithTimeout ctx0 d t0 (es @ [Run b])) = G_start"
    if pc: "wpc ?s = W_go"
  proof -
    have "wctx ?s \<noteq> None" "gpc ?s = G_none"
      using inv pc by (simp_all add: winv_def)
    moreover have "gpc (wrun1 b ?s) = G_start"
      using pc by (simp add: wrun1_def)
    ultimately show ?thesis by (simp add: WaitWithTimeout_append)
  qed
  have once: "calls (WaitWithTimeout ctx0 d t0 (es @ [Go])) = 1" if "gpc ?s = G_start"
    using go_calls_wait [OF inv that] by (simp add: WaitWithTimeout_append)
  from pre cnt only spawn once show ?thesis by blast
qed

text \<open>
  The test "wait returns nil before timeout" and the property that \<^verbatim>\<open>wait\<close> is not called
  before the cancellation: with the context not done, steps of the function, time and a
  step offered to the goroutine leave \<^verbatim>\<open>wait\<close> uncalled and the function at line 103. Once
  the context is cancelled the function reaches the \<^verbatim>\<open>go\<close> statement, its next step starts
  the goroutine, and the step of the goroutine calls \<^verbatim>\<open>wait\<close>, once; the steps of the
  function after that leave the count at one.
\<close>

theorem wait_called_once_after_cancel_witness:
  "wctx (WaitWithTimeout None 1000000000 0 [Run First, Tick 700000000, Go, Run Second]) = None
   \<and> calls (WaitWithTimeout None 1000000000 0 [Run First, Tick 700000000, Go, Run Second]) = 0
   \<and> wpc (WaitWithTimeout None 1000000000 0 [Run First, Tick 700000000, Go, Run Second]) = W_done
   \<and> wpc (WaitWithTimeout None 1000000000 0
        [Run First, Cancel context_Canceled, Run First, Run First]) = W_go
   \<and> gpc (WaitWithTimeout None 1000000000 0
        [Run First, Cancel context_Canceled, Run First, Run First, Run First]) = G_start
   \<and> calls (WaitWithTimeout None 1000000000 0
        [Run First, Cancel context_Canceled, Run First, Run First, Run First, Go]) = 1
   \<and> calls (WaitWithTimeout None 1000000000 0
        [Run First, Cancel context_Canceled, Run First, Run First, Run First, Go, Run First]) = 1"
proof -
  let ?es0 = "[Run First, Tick 700000000, Go, Run Second]"
  let ?es1 = "[Run First, Cancel context_Canceled, Run First, Run First]"
  have cx: "wctx (WaitWithTimeout None 1000000000 0 ?es0) = None"
    by (simp add: wwt_defs)
  from wait_called_once_after_cancel [of None 1000000000 0 ?es0] cx
  have a: "calls (WaitWithTimeout None 1000000000 0 ?es0) = 0"
    "wpc (WaitWithTimeout None 1000000000 0 ?es0) = W_done"
    by blast+
  have pc: "wpc (WaitWithTimeout None 1000000000 0 ?es1) = W_go"
    by (simp add: wwt_defs)
  from wait_called_once_after_cancel [of None 1000000000 0 ?es1 _ First] pc
  have g: "gpc (WaitWithTimeout None 1000000000 0 (?es1 @ [Run First])) = G_start"
    by blast
  from wait_called_once_after_cancel [of None 1000000000 0 "?es1 @ [Run First]"] g
  have c1: "calls (WaitWithTimeout None 1000000000 0 ((?es1 @ [Run First]) @ [Go])) = 1"
    by blast
  have ne: "Run First \<noteq> Go" by simp
  from wait_called_once_after_cancel
    [of None 1000000000 0 "(?es1 @ [Run First]) @ [Go]" "Run First"] ne
  have "calls (WaitWithTimeout None 1000000000 0 (((?es1 @ [Run First]) @ [Go]) @ [Run First]))
      = calls (WaitWithTimeout None 1000000000 0 ((?es1 @ [Run First]) @ [Go]))"
    by blast
  with c1 have c2: "calls (WaitWithTimeout None 1000000000 0
      (((?es1 @ [Run First]) @ [Go]) @ [Run First])) = 1"
    by simp
  from cx a pc g c1 c2 show ?thesis by simp
qed

text \<open>
  Claim C10. For a timeout that is zero or negative, in every run of a call of
  \<^verbatim>\<open>WaitWithTimeout\<close>: at the \<^verbatim>\<open>select\<close> the timer has fired, so the step of the function at
  the \<^verbatim>\<open>select\<close> always returns, the value in \<^verbatim>\<open>rec\<close> when there is one and the runtime
  chooses the first case, \<^verbatim>\<open>ErrWaitDeadlineExceeded\<close> otherwise; and once the context is
  done, any continuation of the run in which the function's goroutine takes five steps
  ends with the function returned, the value being \<^verbatim>\<open>ErrWaitDeadlineExceeded\<close> or what
  \<^verbatim>\<open>wait\<close> returned.
\<close>

theorem nonpositive_timeout_returns:
  assumes "d \<le> 0"
  shows "(wpc (WaitWithTimeout ctx0 d t0 es) = W_select \<longrightarrow>
      timer_ready (WaitWithTimeout ctx0 d t0 es))
    \<and> (wpc (WaitWithTimeout ctx0 d t0 es) = W_select
        \<and> rec (WaitWithTimeout ctx0 d t0 es) = Some (err # rest) \<and> b = First \<longrightarrow>
        wpc (WaitWithTimeout ctx0 d t0 (es @ [Run b])) = W_returned err)
    \<and> (wpc (WaitWithTimeout ctx0 d t0 es) = W_select
        \<and> (rec (WaitWithTimeout ctx0 d t0 es) = Some [] \<or> b = Second) \<longrightarrow>
        wpc (WaitWithTimeout ctx0 d t0 (es @ [Run b]))
          = W_returned (Some ErrWaitDeadlineExceeded))
    \<and> (wctx (WaitWithTimeout ctx0 d t0 es) \<noteq> None \<and> 5 \<le> runs es' \<longrightarrow>
        (\<exists>v. wpc (WaitWithTimeout ctx0 d t0 (es @ es')) = W_returned v
          \<and> (v = Some ErrWaitDeadlineExceeded
              \<or> wait_ret (WaitWithTimeout ctx0 d t0 (es @ es')) = Some v)))"
proof -
  let ?s = "WaitWithTimeout ctx0 d t0 es"
  have inv: "winv d ?s" by (rule winv_run)
  have rdy: "timer_ready ?s" if "wpc ?s = W_select"
    by (rule timer_fired_at_once [OF inv assms that])
  have fst: "wpc (WaitWithTimeout ctx0 d t0 (es @ [Run b])) = W_returned err"
    if pc: "wpc ?s = W_select" and ch: "rec ?s = Some (err # rest)" and b: "b = First"
    using wselect_rec [OF pc ch disjI2 [OF b]] by (simp add: WaitWithTimeout_append)
  have snd: "wpc (WaitWithTimeout ctx0 d t0 (es @ [Run b]))
      = W_returned (Some ErrWaitDeadlineExceeded)"
    if pc: "wpc ?s = W_select" and ch: "rec ?s = Some [] \<or> b = Second"
    using wselect_timer [OF pc rdy [OF pc] ch] by (simp add: WaitWithTimeout_append)
  have fin: "\<exists>v. wpc (WaitWithTimeout ctx0 d t0 (es @ es')) = W_returned v
      \<and> (v = Some ErrWaitDeadlineExceeded
          \<or> wait_ret (WaitWithTimeout ctx0 d t0 (es @ es')) = Some v)"
    if cx: "wctx ?s \<noteq> None" and n: "5 \<le> runs es'"
  proof -
    have "steps_left (wpc ?s) \<le> runs es'"
      using steps_left_le [of "wpc ?s"] n by simp
    from returns_within [OF inv assms cx this]
    obtain v where v: "wpc (WaitWithTimeout ctx0 d t0 (es @ es')) = W_returned v"
      by (auto simp: WaitWithTimeout_append)
    from returned_value [OF winv_run v] v show ?thesis by blast
  qed
  from rdy fst snd fin show ?thesis by blast
qed

text \<open>
  A call with timeout zero, and one with a negative timeout whose \<^verbatim>\<open>wait\<close> has returned and
  sent nil before the \<^verbatim>\<open>select\<close>: after the cancellation five steps of the function return,
  \<^verbatim>\<open>ErrWaitDeadlineExceeded\<close> in the first run and, the runtime choosing the first case,
  nil in the second.
\<close>

theorem nonpositive_timeout_returns_witness:
  "(0::int) \<le> 0
   \<and> wctx (WaitWithTimeout None 0 0 [Cancel context_Canceled]) \<noteq> None
   \<and> 5 \<le> runs [Run First, Run First, Run First, Go, Run First, Run First]
   \<and> wpc (WaitWithTimeout None 0 0
        [Cancel context_Canceled, Run First, Run First, Run First, Go, Run First, Run First])
      = W_returned (Some ErrWaitDeadlineExceeded)
   \<and> (-5::int) \<le> 0
   \<and> wpc (WaitWithTimeout None (-5) 0
        [Cancel context_Canceled, Run First, Run First, Run First, Go, WaitReturns None, Go,
         Run First]) = W_select
   \<and> rec (WaitWithTimeout None (-5) 0
        [Cancel context_Canceled, Run First, Run First, Run First, Go, WaitReturns None, Go,
         Run First]) = Some [None]
   \<and> wpc (WaitWithTimeout None (-5) 0
        [Cancel context_Canceled, Run First, Run First, Run First, Go, WaitReturns None, Go,
         Run First, Run First]) = W_returned None"
proof -
  let ?es' = "[Run First, Run First, Run First, Go, Run First, Run First]"
  let ?es2 = "[Cancel context_Canceled, Run First, Run First, Run First, Go, WaitReturns None,
    Go, Run First]"
  have z: "(0::int) \<le> 0" and m: "(-5::int) \<le> 0" by simp_all
  have cx: "wctx (WaitWithTimeout None 0 0 [Cancel context_Canceled]) \<noteq> None"
    by (simp add: wwt_defs)
  have n: "5 \<le> runs ?es'" by simp
  from nonpositive_timeout_returns [OF z, of None 0 "[Cancel context_Canceled]" _ _ _ ?es'] cx n
  obtain v where v: "wpc (WaitWithTimeout None 0 0 ([Cancel context_Canceled] @ ?es'))
      = W_returned v"
    and w: "v = Some ErrWaitDeadlineExceeded
      \<or> wait_ret (WaitWithTimeout None 0 0 ([Cancel context_Canceled] @ ?es')) = Some v"
    by blast
  have "wait_ret (WaitWithTimeout None 0 0 ([Cancel context_Canceled] @ ?es')) = None"
    by (simp add: wwt_defs)
  with v w have r1: "wpc (WaitWithTimeout None 0 0 ([Cancel context_Canceled] @ ?es'))
      = W_returned (Some ErrWaitDeadlineExceeded)"
    by simp
  have pc: "wpc (WaitWithTimeout None (-5) 0 ?es2) = W_select"
    by (simp add: wwt_defs)
  have ch: "rec (WaitWithTimeout None (-5) 0 ?es2) = Some (None # [])"
    by (simp add: wwt_defs)
  from nonpositive_timeout_returns [OF m, of None 0 ?es2 None "[]" First] pc ch
  have r2: "wpc (WaitWithTimeout None (-5) 0 (?es2 @ [Run First])) = W_returned None"
    by blast
  from z m cx n r1 pc ch r2 show ?thesis by simp
qed


end
